theory Spec2Isabelle
  imports
    Complex_Main
    "HOL-Library.Sublist"
    "HOL-Library.List_Lexorder"
    "HOL-Library.Char_ord"
begin

section \<open>Quiz-poll analytics: cleaning scripts and insight engine\<close>

text \<open>
  The repository consists of three stages that hand spreadsheets to one another:
  \<^verbatim>\<open>get_cleaned.py\<close> (date keywords, tally strings, vote reconciliation),
  \<^verbatim>\<open>get_questions.py\<close> (question de-duplication, relative voting times, the batch report)
  and \<^verbatim>\<open>quiz_dashboard3.py\<close> (\<^verbatim>\<open>load_data\<close> and \<^verbatim>\<open>calculate_insights\<close>).

  Conventions of the embedding.
  \<^item> A Python \<^verbatim>\<open>str\<close> is a \<^typ>\<open>string\<close>; each \<^typ>\<open>char\<close> stands for one code point
    below 256, and strings are compared by code point as Python does.
  \<^item> A DataFrame is the list of its rows, in row order; a column assignment maps over it.
  \<^item> A spreadsheet cell that can hold several Python types is a datatype.
  \<^item> \<^verbatim>\<open>pd.to_datetime\<close> belongs to pandas, not to the repository: it is a parameter of
    every function that calls it. pandas reads the wall clock for some strings (the
    lower-case \<^verbatim>\<open>today\<close> is one), so the parameter takes the clock reading as an argument.
  \<^item> The wall clock is an input: a function that reads it, itself or through pandas,
    takes the reading \<open>now\<close>, in whole seconds, as an argument.
  \<^item> A raised exception is the \<open>Inl\<close> side of a sum.
\<close>

subsection \<open>Python string primitives used by the scripts\<close>

text \<open>\<^verbatim>\<open>sub in s\<close> for two strings.\<close>

fun str_contains :: "string \<Rightarrow> string \<Rightarrow> bool" where
  "str_contains sub [] = (sub = [])"
| "str_contains sub (c # cs) = (prefix sub (c # cs) \<or> str_contains sub cs)"

text \<open>The code points below 256 for which \<^verbatim>\<open>str.isspace\<close> holds.\<close>

definition is_space :: "char \<Rightarrow> bool" where
  "is_space c = ((of_char c :: nat) \<in> {9, 10, 11, 12, 13, 28, 29, 30, 31, 32, 133, 160})"

text \<open>
  \<^verbatim>\<open>s.split()\<close>: the maximal runs of non-space characters, in order. The first argument
  is the token being read.
\<close>

fun split_ws :: "string \<Rightarrow> string \<Rightarrow> string list" where
  "split_ws cur [] = (if cur = [] then [] else [cur])"
| "split_ws cur (c # cs) =
     (if is_space c then (if cur = [] then split_ws [] cs else cur # split_ws [] cs)
      else split_ws (cur @ [c]) cs)"

definition str_split :: "string \<Rightarrow> string list" where
  "str_split s = split_ws [] s"

text \<open>\<^verbatim>\<open>s.strip()\<close>.\<close>

definition str_strip :: "string \<Rightarrow> string" where
  "str_strip s = rev (dropWhile is_space (rev (dropWhile is_space s)))"

definition is_digit :: "char \<Rightarrow> bool" where
  "is_digit c = (48 \<le> (of_char c :: nat) \<and> (of_char c :: nat) \<le> 57)"

definition digit_val :: "char \<Rightarrow> nat" where
  "digit_val c = of_char c - 48"

text \<open>
  \<^verbatim>\<open>int(tok)\<close> for a token without white space (as \<^verbatim>\<open>split()\<close> produces): an optional
  sign, then decimal digits, where single underscores may separate digits. Anything
  else is a \<^verbatim>\<open>ValueError\<close>, here \<open>None\<close>. (The interpreter's configurable limit on the
  number of digits is left out.)
\<close>

fun parse_digits :: "nat \<Rightarrow> string \<Rightarrow> nat option" where
  "parse_digits acc [] = Some acc"
| "parse_digits acc (c # cs) =
     (if is_digit c then parse_digits (10 * acc + digit_val c) cs
      else if c = CHR ''_'' then
        (case cs of
           [] \<Rightarrow> None
         | d # ds \<Rightarrow> if is_digit d then parse_digits (10 * acc + digit_val d) ds else None)
      else None)"

definition parse_unsigned :: "string \<Rightarrow> nat option" where
  "parse_unsigned s =
     (case s of [] \<Rightarrow> None | c # cs \<Rightarrow> if is_digit c then parse_digits (digit_val c) cs else None)"

definition py_int :: "string \<Rightarrow> int option" where
  "py_int s =
     (case s of
        [] \<Rightarrow> None
      | c # cs \<Rightarrow>
          if c = CHR ''-'' then map_option (\<lambda>n. - int n) (parse_unsigned cs)
          else if c = CHR ''+'' then map_option int (parse_unsigned cs)
          else map_option int (parse_unsigned (c # cs)))"

subsection \<open>Cells, dates and errors\<close>

text \<open>A cell read from a spreadsheet; \<open>CBlank\<close> is the float NaN of an empty cell. A pandas
  timestamp is its number of seconds since the epoch.\<close>

type_synonym timestamp = int

datatype cell = CStr string | CInt int | CTimestamp timestamp | CBlank

text \<open>Python's \<^verbatim>\<open>datetime\<close> object.\<close>

record datetime =
  year :: nat
  month :: nat
  day :: nat
  hour :: nat
  minute :: nat
  second :: nat

definition mk_datetime :: "nat \<Rightarrow> nat \<Rightarrow> nat \<Rightarrow> datetime" where
  "mk_datetime y m d = \<lparr>year = y, month = m, day = d, hour = 0, minute = 0, second = 0\<rparr>"

text \<open>
  What a call \<^verbatim>\<open>pd.to_datetime(v, dayfirst=True, errors='coerce')\<close> can do: raise, return a
  timestamp, or return the missing marker \<^verbatim>\<open>NaT\<close>. The call itself is a function of the
  clock reading and of the value.
\<close>

datatype pd_result = Raised | Parsed timestamp | NaT

datatype error = ValueError | IndexError | TypeError | PandasError

subsection \<open>\<^verbatim>\<open>get_cleaned.py\<close>: \<^verbatim>\<open>convert_date\<close>\<close>

text \<open>
  The value stored by \<^verbatim>\<open>convert_date\<close>: a Python datetime for a keyword, the pandas result
  otherwise, and the value itself when the bare \<^verbatim>\<open>except\<close> catches a raise.
\<close>

datatype date_value = PyDatetime datetime | PdTimestamp timestamp | PdNaT | Unconverted cell

definition convert_date :: "(datetime \<Rightarrow> cell \<Rightarrow> pd_result) \<Rightarrow> datetime \<Rightarrow> cell \<Rightarrow> date_value" where
  "convert_date to_datetime now v =
     (if v = CStr ''TODAY'' then PyDatetime (mk_datetime 2024 10 22)
      else if v = CStr ''YESTERDAY'' then PyDatetime (mk_datetime 2024 10 21)
      else if v = CStr ''SUNDAY'' then PyDatetime (mk_datetime 2024 10 20)
      else if v = CStr ''FRIDAY'' then PyDatetime (mk_datetime 2024 10 18)
      else (case to_datetime now v of
              Raised \<Rightarrow> Unconverted v
            | Parsed t \<Rightarrow> PdTimestamp t
            | NaT \<Rightarrow> PdNaT))"

subsection \<open>\<^verbatim>\<open>get_cleaned.py\<close>: \<^verbatim>\<open>convert_vote_count\<close>\<close>

definition convert_vote_count :: "cell \<Rightarrow> error + cell" where
  "convert_vote_count v =
     (case v of
        CStr s \<Rightarrow>
          if str_contains ''votes'' s then
            (case str_split s of
               [] \<Rightarrow> Inl IndexError
             | tok # _ \<Rightarrow> (case py_int tok of None \<Rightarrow> Inl ValueError | Some n \<Rightarrow> Inr (CInt n)))
          else Inr v
      | _ \<Rightarrow> Inr v)"

subsection \<open>\<^verbatim>\<open>get_cleaned.py\<close>: the tables and the reconciliation loop\<close>

text \<open>
  One row of \<^verbatim>\<open>Que_Ans.xlsx\<close> and of \<^verbatim>\<open>Voter.xlsx\<close>. The type of the date columns changes
  from stage to stage (raw cell, converted value, timestamp), so it is a parameter.
\<close>

record 'd que_ans_row =
  que_text :: string
  que_created_at :: 'd
  ans_text :: string
  votes :: cell

record 't voter_row =
  voter_name :: string
  question_text :: string
  choice :: string
  vote_count :: cell
  voting_time :: 't

text \<open>
  The two module-level DataFrame objects of \<^verbatim>\<open>get_cleaned.py\<close>. Each name is bound once, to
  the object \<^verbatim>\<open>read_excel\<close> returned, and every later statement works on that object.
\<close>

record ('d, 't) frames =
  que_ans_df :: "'d que_ans_row list"
  voter_df :: "'t voter_row list"

text \<open>
  \<^verbatim>\<open>que_ans_df['que_created_at'] = que_ans_df['que_created_at'].apply(convert_date)\<close>; one
  reading stands for the clock while the column is converted.
\<close>

definition apply_convert_date ::
  "(datetime \<Rightarrow> cell \<Rightarrow> pd_result) \<Rightarrow> datetime \<Rightarrow> (cell, 't) frames \<Rightarrow> (date_value, 't) frames" where
  "apply_convert_date to_datetime now st =
     \<lparr>que_ans_df =
        map (\<lambda>r. \<lparr>que_text = que_text r,
                     que_created_at = convert_date to_datetime now (que_created_at r),
                     ans_text = ans_text r, votes = votes r\<rparr>) (que_ans_df st),
      voter_df = voter_df st\<rparr>"

text \<open>
  \<^verbatim>\<open>voter_df['vote_count'] = voter_df['vote_count'].apply(convert_vote_count)\<close>: the first
  raise leaves the script.
\<close>

fun apply_vote_count :: "'t voter_row list \<Rightarrow> error + 't voter_row list" where
  "apply_vote_count [] = Inr []"
| "apply_vote_count (b # bs) =
     (case convert_vote_count (vote_count b) of
        Inl e \<Rightarrow> Inl e
      | Inr c \<Rightarrow> (case apply_vote_count bs of
                    Inl e \<Rightarrow> Inl e
                  | Inr bs' \<Rightarrow> Inr (b\<lparr>vote_count := c\<rparr> # bs')))"

text \<open>\<^verbatim>\<open>Series.unique()\<close>: the distinct values in order of first appearance.\<close>

fun unique :: "'a list \<Rightarrow> 'a list" where
  "unique [] = []"
| "unique (x # xs) = x # unique (filter (\<lambda>y. y \<noteq> x) xs)"

text \<open>
  \<^verbatim>\<open>voter_df[(voter_df['question_text'] == q) & (voter_df['choice'] == c)].shape[0]\<close>
\<close>

definition choice_voter_count :: "'t voter_row list \<Rightarrow> string \<Rightarrow> string \<Rightarrow> nat" where
  "choice_voter_count vdf q c = length (filter (\<lambda>b. question_text b = q \<and> choice b = c) vdf)"

text \<open>
  \<^verbatim>\<open>que_ans_df.loc[(que_ans_df['que_text'] == q) & (que_ans_df['ans_text'] == c), 'votes'] = n\<close>
\<close>

definition set_votes :: "string \<Rightarrow> string \<Rightarrow> nat \<Rightarrow> 'd que_ans_row list \<Rightarrow> 'd que_ans_row list" where
  "set_votes q c n qdf =
     map (\<lambda>r. if que_text r = q \<and> ans_text r = c then r\<lparr>votes := CInt (int n)\<rparr> else r) qdf"

text \<open>
  \<^verbatim>\<open>voter_df[voter_df['question_text'] == q]['choice'].unique()\<close>: the choices that some
  ballot of question \<open>q\<close> picked.
\<close>

definition voted_choices :: "'t voter_row list \<Rightarrow> string \<Rightarrow> string list" where
  "voted_choices vdf q = unique (map choice (filter (\<lambda>b. question_text b = q) vdf))"

text \<open>The inner \<^verbatim>\<open>for choice in ...\<close> loop, for one question text.\<close>

fun choice_loop :: "'t voter_row list \<Rightarrow> string \<Rightarrow> string list \<Rightarrow> 'd que_ans_row list \<Rightarrow> 'd que_ans_row list" where
  "choice_loop vdf q [] qdf = qdf"
| "choice_loop vdf q (c # cs) qdf = choice_loop vdf q cs (set_votes q c (choice_voter_count vdf q c) qdf)"

text \<open>
  The outer \<^verbatim>\<open>for idx, row in que_ans_df.iterrows()\<close> loop; only \<^verbatim>\<open>row['que_text']\<close> is read
  from a row, and the loop never writes that column, so the loop runs over the question
  texts of the rows.
\<close>

fun row_loop :: "'t voter_row list \<Rightarrow> string list \<Rightarrow> 'd que_ans_row list \<Rightarrow> 'd que_ans_row list" where
  "row_loop vdf [] qdf = qdf"
| "row_loop vdf (q # qs) qdf = row_loop vdf qs (choice_loop vdf q (voted_choices vdf q) qdf)"

text \<open>The reconciliation block: it assigns into the object bound to \<^verbatim>\<open>que_ans_df\<close>.\<close>

definition reconcile :: "('d, 't) frames \<Rightarrow> ('d, 't) frames" where
  "reconcile st =
     st\<lparr>que_ans_df := row_loop (voter_df st) (map que_text (que_ans_df st)) (que_ans_df st)\<rparr>"

text \<open>
  The loop in one step: the rows whose (question, choice) pair satisfies \<open>P\<close> carry their
  ballot count, the others are untouched. It is used to describe the loop, not by it.
\<close>

definition recount :: "'t voter_row list \<Rightarrow> (string \<times> string \<Rightarrow> bool) \<Rightarrow> 'd que_ans_row list \<Rightarrow> 'd que_ans_row list" where
  "recount vdf P qdf =
     map (\<lambda>r. if P (que_text r, ans_text r)
              then r\<lparr>votes := CInt (int (choice_voter_count vdf (que_text r) (ans_text r)))\<rparr>
              else r) qdf"

text \<open>A question table and a ballot table on which choice \<^verbatim>\<open>B\<close> of \<^verbatim>\<open>Q1\<close> has no ballot.\<close>

definition stale_frames :: "(date_value, cell) frames" where
  "stale_frames =
     \<lparr>que_ans_df =
        [\<lparr>que_text = ''Q1'', que_created_at = PyDatetime (mk_datetime 2024 10 20),
          ans_text = ''A'', votes = CStr ''3 votes''\<rparr>,
         \<lparr>que_text = ''Q1'', que_created_at = PyDatetime (mk_datetime 2024 10 20),
          ans_text = ''B'', votes = CStr ''7 votes''\<rparr>],
      voter_df =
        [\<lparr>voter_name = ''v1'', question_text = ''Q1'', choice = ''A'', vote_count = CInt 1,
          voting_time = CStr ''20/10/2024 10:05''\<rparr>]\<rparr>"

subsection \<open>\<^verbatim>\<open>get_questions.py\<close>: question de-duplication\<close>

text \<open>
  \<^verbatim>\<open>DataFrame.drop_duplicates(subset=[col])\<close> with the default \<^verbatim>\<open>keep='first'\<close>: of the rows
  with equal key, the first in row order stays.
\<close>

fun drop_duplicates :: "('r \<Rightarrow> 'k) \<Rightarrow> 'r list \<Rightarrow> 'r list" where
  "drop_duplicates key [] = []"
| "drop_duplicates key (r # rs) = r # drop_duplicates key (filter (\<lambda>x. key x \<noteq> key r) rs)"

text \<open>\<^verbatim>\<open>que_ans_df = que_ans_df.drop_duplicates(subset=['que_text'])\<close>\<close>

definition dedup_que_ans :: "'d que_ans_row list \<Rightarrow> 'd que_ans_row list" where
  "dedup_que_ans qdf = drop_duplicates que_text qdf"

text \<open>
  A question table in which the first of two rows for \<^verbatim>\<open>Q1\<close> carries the later creation
  time (2024-10-20 10:05 and 10:00, in seconds since the epoch).
\<close>

definition late_first :: "timestamp option que_ans_row list" where
  "late_first =
     [\<lparr>que_text = ''Q1'', que_created_at = Some 1729418700, ans_text = ''A'', votes = CInt 1\<rparr>,
      \<lparr>que_text = ''Q1'', que_created_at = Some 1729418400, ans_text = ''B'', votes = CInt 1\<rparr>]"

subsection \<open>\<^verbatim>\<open>get_questions.py\<close>: \<^verbatim>\<open>parse_custom_date\<close>\<close>

text \<open>
  \<^verbatim>\<open>s.split(sep)\<close> for a non-empty separator: the pieces between the occurrences of
  \<^verbatim>\<open>sep\<close>, found from the left. The second argument is the piece being read.
\<close>

function split_sep :: "string \<Rightarrow> string \<Rightarrow> string \<Rightarrow> string list" where
  "split_sep sep cur [] = [cur]"
| "split_sep sep cur (c # cs) =
     (if sep \<noteq> [] \<and> prefix sep (c # cs)
      then cur # split_sep sep [] (drop (length sep) (c # cs))
      else split_sep sep (cur @ [c]) cs)"
  by pat_completeness auto
termination
  by (relation "measure (\<lambda>(sep, cur, rest). length rest)") auto

definition digit_char :: "nat \<Rightarrow> char" where
  "digit_char n = ''0123456789'' ! (n mod 10)"

text \<open>\<^verbatim>\<open>d.strftime("%d/%m/%Y")\<close>, for a year of four digits.\<close>

definition strftime_dmy :: "datetime \<Rightarrow> string" where
  "strftime_dmy d =
     [digit_char (day d div 10), digit_char (day d), CHR ''/'',
      digit_char (month d div 10), digit_char (month d), CHR ''/'',
      digit_char (year d div 1000), digit_char (year d div 100),
      digit_char (year d div 10), digit_char (year d)]"

definition is_leap :: "nat \<Rightarrow> bool" where
  "is_leap y = ((y mod 4 = 0 \<and> y mod 100 \<noteq> 0) \<or> y mod 400 = 0)"

definition days_in_month :: "nat \<Rightarrow> nat \<Rightarrow> nat" where
  "days_in_month y m =
     (if m = 2 then (if is_leap y then 29 else 28)
      else if m = 4 \<or> m = 6 \<or> m = 9 \<or> m = 11 then 30 else 31)"

text \<open>\<^verbatim>\<open>d - timedelta(days=1)\<close>, for a date after 1 January of year 1.\<close>

definition minus_one_day :: "datetime \<Rightarrow> datetime" where
  "minus_one_day d =
     (if 1 < day d then d\<lparr>day := day d - 1\<rparr>
      else if 1 < month d then d\<lparr>month := month d - 1, day := days_in_month (year d) (month d - 1)\<rparr>
      else d\<lparr>year := year d - 1, month := 12, day := 31\<rparr>)"

text \<open>
  The seconds from the epoch to a datetime, through the day number that
  \<^verbatim>\<open>date.toordinal()\<close> counts from 1 January of year 1 (1 January 1970 is day 719163).
\<close>

definition days_before_year :: "nat \<Rightarrow> nat" where
  "days_before_year y = 365 * (y - 1) + (y - 1) div 4 + (y - 1) div 400 - (y - 1) div 100"

definition days_before_month :: "nat \<Rightarrow> nat \<Rightarrow> nat" where
  "days_before_month y m = sum_list (map (days_in_month y) [1..<m])"

definition epoch_seconds :: "datetime \<Rightarrow> timestamp" where
  "epoch_seconds d =
     (int (days_before_year (year d) + days_before_month (year d) (month d) + day d) - 719163) * 86400
       + int (hour d) * 3600 + int (minute d) * 60 + int (second d)"

definition time_part :: "string \<Rightarrow> string" where
  "time_part s = str_strip (last (split_sep ''at'' [] s))"

text \<open>
  The value of \<^verbatim>\<open>date_str\<close> when \<^verbatim>\<open>parse_custom_date\<close> hands it to \<^verbatim>\<open>pd.to_datetime\<close>: rewritten
  with the date of \<^verbatim>\<open>datetime.now()\<close> when it contains \<^verbatim>\<open>Today\<close> or \<^verbatim>\<open>Yesterday\<close>, untouched
  otherwise. The argument \<open>now\<close> is the clock reading while the function runs.
\<close>

definition relative_date_str :: "datetime \<Rightarrow> string \<Rightarrow> string" where
  "relative_date_str now s =
     (if str_contains ''Today'' s then strftime_dmy now @ '' '' @ time_part s
      else if str_contains ''Yesterday'' s
        then strftime_dmy (minus_one_day now) @ '' '' @ time_part s
      else s)"

text \<open>
  \<^verbatim>\<open>parse_custom_date\<close>. A timestamp is returned before anything else is done. A value
  that is neither a timestamp nor a string makes \<^verbatim>\<open>"Today" in date_str\<close> raise
  \<^verbatim>\<open>TypeError\<close>. The call of \<^verbatim>\<open>pd.to_datetime\<close> is not guarded: if it raises, so does the
  function.
\<close>

definition parse_custom_date :: "(datetime \<Rightarrow> cell \<Rightarrow> pd_result) \<Rightarrow> datetime \<Rightarrow> cell \<Rightarrow> error + timestamp option" where
  "parse_custom_date to_datetime now date_str =
     (case date_str of
        CTimestamp t \<Rightarrow> Inr (Some t)
      | CStr s \<Rightarrow>
          (case to_datetime now (CStr (relative_date_str now s)) of
             Raised \<Rightarrow> Inl PandasError
           | Parsed t \<Rightarrow> Inr (Some t)
           | NaT \<Rightarrow> Inr None)
      | _ \<Rightarrow> Inl TypeError)"

text \<open>
  Some values of \<^verbatim>\<open>pd.to_datetime(v, dayfirst=True, errors='coerce')\<close>, enough to run the two
  date functions on the examples below. pandas resolves the lower-case string \<^verbatim>\<open>today\<close>
  to the current instant of the wall clock; the three day-first dates are 22 and 23
  October 2024 at 10:00 and 3 April 2024; a timestamp comes back as it is. The table
  answers \<^verbatim>\<open>NaT\<close> elsewhere; of those values only \<^verbatim>\<open>Today at 3pm\<close>, which pandas cannot parse,
  is used below.
\<close>

definition pandas_sample :: "datetime \<Rightarrow> cell \<Rightarrow> pd_result" where
  "pandas_sample now v =
     (if v = CStr ''today'' then Parsed (epoch_seconds now)
      else if v = CStr ''22/10/2024 10:00'' then Parsed 1729591200
      else if v = CStr ''23/10/2024 10:00'' then Parsed 1729677600
      else if v = CStr ''3/4/2024'' then Parsed 1712102400
      else (case v of CTimestamp t \<Rightarrow> Parsed t | _ \<Rightarrow> NaT))"

definition at_ten :: "nat \<Rightarrow> nat \<Rightarrow> nat \<Rightarrow> datetime" where
  "at_ten y m d = \<lparr>year = y, month = m, day = d, hour = 10, minute = 0, second = 0\<rparr>"

definition at_eleven :: "nat \<Rightarrow> nat \<Rightarrow> nat \<Rightarrow> datetime" where
  "at_eleven y m d = \<lparr>year = y, month = m, day = d, hour = 11, minute = 0, second = 0\<rparr>"

subsection \<open>pandas operations used by \<^verbatim>\<open>calculate_insights\<close>\<close>

text \<open>
  A Series is the list of its (index, value) pairs. pandas' default sort fixes no order
  among rows of equal value; the model takes the order of a stable sort, in which such
  rows keep their order. Counts are pandas \<^verbatim>\<open>int64\<close> values, ratios and percentages are
  exact rationals in place of \<^verbatim>\<open>float64\<close>, and a value that may be missing is an option.
\<close>

definition head :: "nat \<Rightarrow> 'a list \<Rightarrow> 'a list" where
  "head n xs = take n xs"

definition tail :: "nat \<Rightarrow> 'a list \<Rightarrow> 'a list" where
  "tail n xs = drop (length xs - n) xs"

text \<open>\<^verbatim>\<open>groupby(col)\<close> orders the groups by key.\<close>

definition groupby_keys :: "('r \<Rightarrow> string) \<Rightarrow> 'r list \<Rightarrow> string list" where
  "groupby_keys key rows = sort (remdups (map key rows))"

definition groupby_agg :: "('r \<Rightarrow> string) \<Rightarrow> ('r list \<Rightarrow> 'v) \<Rightarrow> 'r list \<Rightarrow> (string \<times> 'v) list" where
  "groupby_agg key agg rows =
     map (\<lambda>k. (k, agg (filter (\<lambda>r. key r = k) rows))) (groupby_keys key rows)"

text \<open>\<^verbatim>\<open>groupby(col).size()\<close>\<close>

definition groupby_size :: "('r \<Rightarrow> string) \<Rightarrow> 'r list \<Rightarrow> (string \<times> int) list" where
  "groupby_size key rows = groupby_agg key (\<lambda>g. int (length g)) rows"

text \<open>
  \<^verbatim>\<open>df[col].value_counts()\<close>: one entry per distinct value, in order of first appearance,
  then sorted by count, largest first.
\<close>

definition value_counts :: "('r \<Rightarrow> string) \<Rightarrow> 'r list \<Rightarrow> (string \<times> int) list" where
  "value_counts key rows =
     sort_key (\<lambda>kc. - snd kc)
       (map (\<lambda>k. (k, int (length (filter (\<lambda>r. key r = k) rows)))) (unique (map key rows)))"

text \<open>\<^verbatim>\<open>nlargest(n)\<close> and \<^verbatim>\<open>nsmallest(n)\<close> of a Series or frame column without missing values.\<close>

definition nlargest :: "nat \<Rightarrow> ('a \<Rightarrow> 'v::linordered_ab_group_add) \<Rightarrow> 'a list \<Rightarrow> 'a list" where
  "nlargest n col xs = take n (sort_key (\<lambda>x. - col x) xs)"

definition nsmallest :: "nat \<Rightarrow> ('a \<Rightarrow> 'v::linorder) \<Rightarrow> 'a list \<Rightarrow> 'a list" where
  "nsmallest n col xs = take n (sort_key col xs)"

text \<open>
  The same for a Series that may hold missing values: they are set aside, the rest is
  ranked, and the missing ones are appended before the cut.
\<close>

definition dropna :: "('k \<times> 'v option) list \<Rightarrow> ('k \<times> 'v) list" where
  "dropna s = List.map_filter (\<lambda>kv. map_option (\<lambda>v. (fst kv, v)) (snd kv)) s"

definition isna_part :: "('k \<times> 'v option) list \<Rightarrow> ('k \<times> 'v option) list" where
  "isna_part s = filter (\<lambda>kv. snd kv = None) s"

definition present :: "('k \<times> 'v) list \<Rightarrow> ('k \<times> 'v option) list" where
  "present s = map (\<lambda>kv. (fst kv, Some (snd kv))) s"

definition nlargest_na :: "nat \<Rightarrow> ('k \<times> int option) list \<Rightarrow> ('k \<times> int option) list" where
  "nlargest_na n s = take n (present (sort_key (\<lambda>kv. - snd kv) (dropna s)) @ isna_part s)"

definition nsmallest_na :: "nat \<Rightarrow> ('k \<times> int option) list \<Rightarrow> ('k \<times> int option) list" where
  "nsmallest_na n s = take n (present (sort_key snd (dropna s)) @ isna_part s)"

text \<open>\<^verbatim>\<open>min()\<close> and \<^verbatim>\<open>max()\<close> of a group skip missing values; without any value they are missing.\<close>

definition series_max :: "int option list \<Rightarrow> int option" where
  "series_max vs = (case List.map_filter id vs of [] \<Rightarrow> None | t # ts \<Rightarrow> Some (fold max ts t))"

definition series_min :: "int option list \<Rightarrow> int option" where
  "series_min vs = (case List.map_filter id vs of [] \<Rightarrow> None | t # ts \<Rightarrow> Some (fold min ts t))"

text \<open>The mean of a Boolean column: the fraction of \<open>True\<close>.\<close>

definition bool_mean :: "bool list \<Rightarrow> rat" where
  "bool_mean bs = of_nat (length (filter id bs)) / of_nat (length bs)"

subsection \<open>\<^verbatim>\<open>quiz_dashboard3.py\<close>: \<^verbatim>\<open>load_data\<close>\<close>

text \<open>
  A row of \<^verbatim>\<open>Cleaned_Correct_Answers.xlsx\<close>; its columns are called \<^verbatim>\<open>que_text\<close> and
  \<^verbatim>\<open>ans_text\<close> in the source.
\<close>

record correct_answer_row =
  key_que_text :: string
  key_ans_text :: string

text \<open>
  A ballot with its \<^verbatim>\<open>response_time\<close> column, in seconds, as both \<^verbatim>\<open>get_questions.py\<close> and
  \<^verbatim>\<open>load_data\<close> add it. A row of \<^verbatim>\<open>voter_df\<close> as \<^verbatim>\<open>load_data\<close> returns it has, in addition,
  the columns \<^verbatim>\<open>que_text\<close> and \<^verbatim>\<open>que_created_at\<close> that the left merge adds (missing when no
  question row matches). The date columns are those that
  \<^verbatim>\<open>pd.to_datetime(..., errors='coerce')\<close> has produced: a timestamp or missing.
\<close>

record timed_row = "timestamp option voter_row" +
  response_time :: "int option"

record loaded_row = timed_row +
  merged_que_text :: "string option"
  merged_que_created_at :: "timestamp option"

definition total_seconds :: "timestamp option \<Rightarrow> timestamp option \<Rightarrow> int option" where
  "total_seconds vt ct = (case vt of None \<Rightarrow> None | Some v \<Rightarrow> (case ct of None \<Rightarrow> None | Some c \<Rightarrow> Some (v - c)))"

definition mk_loaded :: "timestamp option voter_row \<Rightarrow> string option \<Rightarrow> timestamp option \<Rightarrow> loaded_row" where
  "mk_loaded b qt ct =
     \<lparr>voter_name = voter_name b, question_text = question_text b, choice = choice b,
      vote_count = vote_count b, voting_time = voting_time b,
      response_time = total_seconds (voting_time b) ct,
      merged_que_text = qt, merged_que_created_at = ct\<rparr>"

text \<open>
  \<^verbatim>\<open>voter_df.merge(..., left_on='question_text', right_on='que_text', how='left')\<close> with
  the columns \<^verbatim>\<open>que_text\<close> and \<^verbatim>\<open>que_created_at\<close> of \<^verbatim>\<open>que_ans_df\<close>, for one ballot: one row
  per matching question row, in their order, and one row with missing columns when there
  is none.
\<close>

definition merge_left :: "timestamp option que_ans_row list \<Rightarrow> timestamp option voter_row \<Rightarrow> loaded_row list" where
  "merge_left qdf b =
     (case filter (\<lambda>q. que_text q = question_text b) qdf of
        [] \<Rightarrow> [mk_loaded b None None]
      | m # ms \<Rightarrow> map (\<lambda>q. mk_loaded b (Some (que_text q)) (que_created_at q)) (m # ms))"

definition load_data :: "timestamp option que_ans_row list \<Rightarrow> timestamp option voter_row list \<Rightarrow> loaded_row list" where
  "load_data qdf vdf = concat (map (merge_left qdf) vdf)"

subsection \<open>\<^verbatim>\<open>quiz_dashboard3.py\<close>: \<^verbatim>\<open>calculate_insights\<close>\<close>

text \<open>
  A row of \<^verbatim>\<open>merged_df\<close>: the inner merge with the answer key adds the key's \<^verbatim>\<open>ans_text\<close>,
  and \<^verbatim>\<open>is_correct\<close> compares it with the choice.
\<close>

record merged_row = loaded_row +
  correct_ans_text :: string
  is_correct :: bool

definition mk_merged :: "loaded_row \<Rightarrow> string \<Rightarrow> merged_row" where
  "mk_merged b a =
     \<lparr>voter_name = voter_name b, question_text = question_text b, choice = choice b,
      vote_count = vote_count b, voting_time = voting_time b,
      response_time = response_time b,
      merged_que_text = merged_que_text b, merged_que_created_at = merged_que_created_at b,
      correct_ans_text = a, is_correct = (choice b = a)\<rparr>"

definition merged_df :: "loaded_row list \<Rightarrow> correct_answer_row list \<Rightarrow> merged_row list" where
  "merged_df vdf cadf =
     concat (map (\<lambda>b. map (\<lambda>a. mk_merged b (key_ans_text a))
                          (filter (\<lambda>a. key_que_text a = question_text b) cadf)) vdf)"

text \<open>The frame with columns \<^verbatim>\<open>count\<close>, \<^verbatim>\<open>sum\<close> and \<^verbatim>\<open>accuracy\<close>, indexed by voter.\<close>

record performer =
  performer_name :: string
  count_col :: int
  sum_col :: int
  accuracy :: rat

definition mk_performer :: "string \<Rightarrow> merged_row list \<Rightarrow> performer" where
  "mk_performer v g =
     \<lparr>performer_name = v, count_col = int (length g), sum_col = int (length (filter is_correct g)),
      accuracy = of_int (int (length (filter is_correct g))) / of_int (int (length g)) * 100\<rparr>"

text \<open>The rows that \<^verbatim>\<open>voter_df[voter_df['response_time'].notna()]\<close> selects.\<close>

definition notna_response :: "'a timed_row_scheme list \<Rightarrow> 'a timed_row_scheme list" where
  "notna_response vdf = filter (\<lambda>r. response_time r \<noteq> None) vdf"

text \<open>\<^verbatim>\<open>sort_values('response_time')\<close>: ascending, missing values last.\<close>

definition sort_values_response_time :: "'a timed_row_scheme list \<Rightarrow> 'a timed_row_scheme list" where
  "sort_values_response_time vdf =
     sort_key (\<lambda>r. case response_time r of None \<Rightarrow> 0 | Some t \<Rightarrow> t) (notna_response vdf)
       @ filter (\<lambda>r. response_time r = None) vdf"

text \<open>The rows from which the early birds are counted: one per question.\<close>

definition first_responses :: "'a timed_row_scheme list \<Rightarrow> 'a timed_row_scheme list" where
  "first_responses vdf =
     drop_duplicates question_text (sort_values_response_time (notna_response vdf))"

definition active_voters_of :: "loaded_row list \<Rightarrow> nat \<Rightarrow> (string \<times> int) list" where
  "active_voters_of vdf n = head n (value_counts voter_name vdf)"

definition early_birds_of :: "loaded_row list \<Rightarrow> nat \<Rightarrow> (string \<times> int) list" where
  "early_birds_of vdf n = nlargest n snd (groupby_size voter_name (first_responses vdf))"

definition incorrect_questions_of :: "merged_row list \<Rightarrow> nat \<Rightarrow> (string \<times> rat) list" where
  "incorrect_questions_of mdf n =
     nlargest n snd (groupby_agg question_text (\<lambda>g. bool_mean (map (\<lambda>r. \<not> is_correct r) g)) mdf)"

definition easy_questions_of :: "merged_row list \<Rightarrow> nat \<Rightarrow> (string \<times> rat) list" where
  "easy_questions_of mdf n =
     head n (filter (\<lambda>kv. snd kv = 1)
               (groupby_agg question_text (\<lambda>g. bool_mean (map is_correct g)) mdf))"

definition least_active_of :: "loaded_row list \<Rightarrow> nat \<Rightarrow> (string \<times> int) list" where
  "least_active_of vdf n = tail n (value_counts voter_name vdf)"

definition inactive_followers_of :: "loaded_row list \<Rightarrow> nat \<Rightarrow> (string \<times> timestamp option) list" where
  "inactive_followers_of vdf n =
     nsmallest_na n (groupby_agg voter_name (\<lambda>g. series_max (map voting_time g)) vdf)"

definition good_performers_of :: "merged_row list \<Rightarrow> nat \<Rightarrow> performer list" where
  "good_performers_of mdf n =
     nlargest n accuracy
       (map (\<lambda>k. mk_performer k (filter (\<lambda>r. voter_name r = k) mdf)) (groupby_keys voter_name mdf))"

definition least_voted_of :: "loaded_row list \<Rightarrow> nat \<Rightarrow> (string \<times> int) list" where
  "least_voted_of vdf n = nsmallest n snd (value_counts question_text vdf)"

definition fast_responses_of :: "loaded_row list \<Rightarrow> nat \<Rightarrow> (string \<times> int option) list" where
  "fast_responses_of vdf n =
     nsmallest_na n (groupby_agg question_text (\<lambda>g. series_min (map response_time g)) (notna_response vdf))"

definition slow_responses_of :: "loaded_row list \<Rightarrow> nat \<Rightarrow> (string \<times> int option) list" where
  "slow_responses_of vdf n =
     nlargest_na n (groupby_agg question_text (\<lambda>g. series_max (map response_time g)) (notna_response vdf))"

text \<open>The dictionary \<^verbatim>\<open>insights\<close>, one field per key.\<close>

record insights =
  active_voters :: "(string \<times> int) list"
  early_birds :: "(string \<times> int) list"
  incorrect_questions :: "(string \<times> rat) list"
  easy_questions :: "(string \<times> rat) list"
  least_active :: "(string \<times> int) list"
  inactive_followers :: "(string \<times> timestamp option) list"
  good_performers :: "performer list"
  least_voted :: "(string \<times> int) list"
  fast_responses :: "(string \<times> int option) list"
  slow_responses :: "(string \<times> int option) list"

definition calculate_insights :: "loaded_row list \<Rightarrow> correct_answer_row list \<Rightarrow> nat \<Rightarrow> insights" where
  "calculate_insights vdf cadf n =
     \<lparr>active_voters = active_voters_of vdf n,
      early_birds = early_birds_of vdf n,
      incorrect_questions = incorrect_questions_of (merged_df vdf cadf) n,
      easy_questions = easy_questions_of (merged_df vdf cadf) n,
      least_active = least_active_of vdf n,
      inactive_followers = inactive_followers_of vdf n,
      good_performers = good_performers_of (merged_df vdf cadf) n,
      least_voted = least_voted_of vdf n,
      fast_responses = fast_responses_of vdf n,
      slow_responses = slow_responses_of vdf n\<rparr>"

subsection \<open>\<^verbatim>\<open>get_questions.py\<close>: the batch report\<close>

definition mk_timed :: "timestamp option voter_row \<Rightarrow> int option \<Rightarrow> timed_row" where
  "mk_timed b rt =
     \<lparr>voter_name = voter_name b, question_text = question_text b, choice = choice b,
      vote_count = vote_count b, voting_time = voting_time b, response_time = rt\<rparr>"

text \<open>
  \<^verbatim>\<open>voter_df['response_time'] = voter_df['voting_time'] -
  voter_df['question_text'].map(que_ans_df.set_index('que_text')['que_created_at'])\<close>, on the
  de-duplicated question table: the creation time is looked up by question text and is
  missing when the table has no such question.
\<close>

definition report_voter_df :: "timestamp option que_ans_row list \<Rightarrow> timestamp option voter_row list \<Rightarrow> timed_row list" where
  "report_voter_df qdf vdf =
     map (\<lambda>b. mk_timed b
            (total_seconds (voting_time b)
               (case find (\<lambda>q. que_text q = question_text b) (dedup_que_ans qdf) of
                  None \<Rightarrow> None
                | Some q \<Rightarrow> que_created_at q))) vdf"

text \<open>
  \<^verbatim>\<open>early_birds = voter_df.sort_values('response_time').drop_duplicates(['question_text'])
  .groupby('voter_name').size().nlargest(N)\<close>
\<close>

definition report_early_birds :: "timed_row list \<Rightarrow> nat \<Rightarrow> (string \<times> int) list" where
  "report_early_birds vdf n =
     nlargest n snd
       (groupby_size voter_name (drop_duplicates question_text (sort_values_response_time vdf)))"

text \<open>
  \<^verbatim>\<open>merged_df = pd.merge(voter_df, correct_answers_df, on='question_text')\<close>, each row as the
  ballot paired with the key's \<^verbatim>\<open>ans_text\<close>; \<^verbatim>\<open>is_correct\<close> compares the two.
\<close>

definition report_merged_df :: "timed_row list \<Rightarrow> correct_answer_row list \<Rightarrow> (timed_row \<times> string) list" where
  "report_merged_df vdf cadf =
     concat (map (\<lambda>b. map (\<lambda>a. (b, key_ans_text a))
                          (filter (\<lambda>a. key_que_text a = question_text b) cadf)) vdf)"

definition report_is_correct :: "timed_row \<times> string \<Rightarrow> bool" where
  "report_is_correct m = (choice (fst m) = snd m)"

text \<open>
  \<^verbatim>\<open>correct_answers_by_voter = merged_df[merged_df['is_correct']].groupby('voter_name')
  .size().nlargest(N)\<close>
\<close>

definition correct_answers_by_voter :: "timed_row list \<Rightarrow> correct_answer_row list \<Rightarrow> nat \<Rightarrow> (string \<times> int) list" where
  "correct_answers_by_voter vdf cadf n =
     nlargest n snd
       (groupby_size (\<lambda>m. voter_name (fst m)) (filter report_is_correct (report_merged_df vdf cadf)))"

text \<open>
  The end-to-end scenario: question \<^verbatim>\<open>Q1\<close> created 2024-10-20 10:00 with choices \<^verbatim>\<open>A\<close> and
  \<^verbatim>\<open>B\<close>, ballots of \<^verbatim>\<open>v1\<close> (\<^verbatim>\<open>A\<close> at 10:05) and \<^verbatim>\<open>v2\<close> (\<^verbatim>\<open>B\<close> at 10:02), correct answer \<^verbatim>\<open>A\<close>.
\<close>

definition scenario_questions :: "timestamp option que_ans_row list" where
  "scenario_questions =
     [\<lparr>que_text = ''Q1'', que_created_at = Some 1729418400, ans_text = ''A'', votes = CInt 1\<rparr>,
      \<lparr>que_text = ''Q1'', que_created_at = Some 1729418400, ans_text = ''B'', votes = CInt 1\<rparr>]"

definition scenario_ballots :: "timestamp option voter_row list" where
  "scenario_ballots =
     [\<lparr>voter_name = ''v1'', question_text = ''Q1'', choice = ''A'', vote_count = CInt 1,
       voting_time = Some 1729418700\<rparr>,
      \<lparr>voter_name = ''v2'', question_text = ''Q1'', choice = ''B'', vote_count = CInt 1,
       voting_time = Some 1729418520\<rparr>]"

definition scenario_answers :: "correct_answer_row list" where
  "scenario_answers = [\<lparr>key_que_text = ''Q1'', key_ans_text = ''A''\<rparr>]"

subsection \<open>Vocabulary for the ranking properties\<close>

definition descending :: "('a \<Rightarrow> 'v::linorder) \<Rightarrow> 'a list \<Rightarrow> bool" where
  "descending col xs = sorted_wrt (\<lambda>a b. col b \<le> col a) xs"

definition ascending :: "('a \<Rightarrow> 'v::linorder) \<Rightarrow> 'a list \<Rightarrow> bool" where
  "ascending col xs = sorted_wrt (\<lambda>a b. col a \<le> col b) xs"

text \<open>Ascending, respectively descending, with the missing values after all others.\<close>

definition le_na_last :: "int option \<Rightarrow> int option \<Rightarrow> bool" where
  "le_na_last a b =
     (case b of None \<Rightarrow> True | Some y \<Rightarrow> (case a of None \<Rightarrow> False | Some x \<Rightarrow> x \<le> y))"

definition ge_na_last :: "int option \<Rightarrow> int option \<Rightarrow> bool" where
  "ge_na_last a b =
     (case b of None \<Rightarrow> True | Some y \<Rightarrow> (case a of None \<Rightarrow> False | Some x \<Rightarrow> y \<le> x))"

definition ascending_na_last :: "('k \<times> int option) list \<Rightarrow> bool" where
  "ascending_na_last s = sorted_wrt (\<lambda>a b. le_na_last (snd a) (snd b)) s"

definition descending_na_last :: "('k \<times> int option) list \<Rightarrow> bool" where
  "descending_na_last s = sorted_wrt (\<lambda>a b. ge_na_last (snd a) (snd b)) s"

text \<open>Three ballots, two of voter \<^verbatim>\<open>a\<close> and one of voter \<^verbatim>\<open>b\<close>, for a question without key.\<close>

definition uneven_ballots :: "timestamp option voter_row list" where
  "uneven_ballots =
     [\<lparr>voter_name = ''a'', question_text = ''Q1'', choice = ''A'', vote_count = CInt 1,
       voting_time = Some 1729418700\<rparr>,
      \<lparr>voter_name = ''a'', question_text = ''Q2'', choice = ''A'', vote_count = CInt 1,
       voting_time = None\<rparr>,
      \<lparr>voter_name = ''b'', question_text = ''Q1'', choice = ''B'', vote_count = CInt 1,
       voting_time = None\<rparr>]"



definition ballot_v4 :: "timestamp option voter_row" where
  "ballot_v4 = \<lparr>voter_name = ''v4'', question_text = ''Q7'', choice = ''A'', vote_count = CInt 1,
                voting_time = Some 1729418820\<rparr>"

text \<open>
  The scenario with a second question \<^verbatim>\<open>Q2\<close>, created at 10:00 and answered by \<^verbatim>\<open>v1\<close> at
  10:01, and with the ballot of \<^verbatim>\<open>v4\<close> on \<^verbatim>\<open>Q7\<close>, a question without question row.
\<close>

definition two_question_voter_df :: "loaded_row list" where
  "two_question_voter_df =
     load_data
       (scenario_questions @
        [\<lparr>que_text = ''Q2'', que_created_at = Some 1729418400, ans_text = ''A'', votes = CInt 1\<rparr>])
       (scenario_ballots @
        [\<lparr>voter_name = ''v1'', question_text = ''Q2'', choice = ''A'', vote_count = CInt 1,
          voting_time = Some 1729418460\<rparr>, ballot_v4])"

text \<open>The value of a digit string, as \<^const>\<open>parse_digits\<close> accumulates it.\<close>

definition dec_value :: "string \<Rightarrow> nat" where
  "dec_value ds = foldl (\<lambda>acc c. 10 * acc + digit_val c) 0 ds"

section \<open>Properties\<close>

subsection \<open>Helper lemmas on strings\<close>

lemma is_digit_not_space: "is_digit c \<Longrightarrow> \<not> is_space c"
  by (auto simp: is_digit_def is_space_def)

lemma parse_digits_all_digits:
  "\<forall>c \<in> set ds. is_digit c \<Longrightarrow>
     parse_digits acc ds = Some (foldl (\<lambda>a c. 10 * a + digit_val c) acc ds)"
  by (induction ds arbitrary: acc) auto

lemma parse_unsigned_digits:
  assumes "ds \<noteq> []" and "\<forall>c \<in> set ds. is_digit c"
  shows "parse_unsigned ds = Some (dec_value ds)"
proof -
  from assms(1) obtain c cs where ds: "ds = c # cs" by (cases ds) auto
  with assms(2) have "is_digit c" and "\<forall>x \<in> set cs. is_digit x" by auto
  then show ?thesis
    by (simp add: parse_unsigned_def ds dec_value_def parse_digits_all_digits)
qed

lemma py_int_digits:
  assumes "ds \<noteq> []" and "\<forall>c \<in> set ds. is_digit c"
  shows "py_int ds = Some (int (dec_value ds))"
proof -
  from assms(1) obtain c cs where ds: "ds = c # cs" by (cases ds) auto
  with assms(2) have d: "is_digit c" by auto
  have "c \<noteq> CHR ''-''" "c \<noteq> CHR ''+''"
    using d by (auto simp: is_digit_def)
  then show ?thesis
    using parse_unsigned_digits [OF assms] by (simp add: py_int_def ds)
qed

lemma split_ws_no_space:
  "\<forall>c \<in> set ds. \<not> is_space c \<Longrightarrow> is_space s \<Longrightarrow> cur @ ds \<noteq> [] \<Longrightarrow>
     split_ws cur (ds @ s # rest) = (cur @ ds) # split_ws [] rest"
  by (induction ds arbitrary: cur) auto

lemma str_split_token_first:
  assumes "ds \<noteq> []" and "\<forall>c \<in> set ds. \<not> is_space c" and "is_space s"
  shows "str_split (ds @ s # rest) = ds # str_split rest"
  using split_ws_no_space [OF assms(2,3), of "[]" rest] assms(1)
  by (simp add: str_split_def)

lemma str_contains_append: "str_contains sub ys \<Longrightarrow> str_contains sub (xs @ ys)"
  by (induction xs) auto

subsection \<open>The reconciliation loop in closed form\<close>

lemma set_unique [simp]: "set (unique xs) = set xs"
  by (induction xs rule: unique.induct) auto

lemma set_votes_recount:
  "set_votes q c (choice_voter_count vdf q c) (recount vdf P qdf) =
     recount vdf (\<lambda>k. P k \<or> k = (q, c)) qdf"
  by (auto simp: set_votes_def recount_def)

lemma choice_loop_recount:
  "choice_loop vdf q cs (recount vdf P qdf) =
     recount vdf (\<lambda>k. P k \<or> (fst k = q \<and> snd k \<in> set cs)) qdf"
proof (induction cs arbitrary: P)
  case Nil
  show ?case by (simp add: recount_def)
next
  case (Cons c cs)
  have "(\<lambda>k. (P k \<or> k = (q, c)) \<or> (fst k = q \<and> snd k \<in> set cs)) =
        (\<lambda>k. P k \<or> (fst k = q \<and> snd k \<in> set (c # cs)))"
    by (rule ext) auto
  then show ?case
    by (simp add: set_votes_recount Cons.IH)
qed

lemma row_loop_recount:
  "row_loop vdf qs (recount vdf P qdf) =
     recount vdf (\<lambda>k. P k \<or> (fst k \<in> set qs \<and> snd k \<in> set (voted_choices vdf (fst k)))) qdf"
proof (induction qs arbitrary: P)
  case Nil
  show ?case by (simp add: recount_def)
next
  case (Cons q qs)
  have "(\<lambda>k. (P k \<or> (fst k = q \<and> snd k \<in> set (voted_choices vdf q))) \<or>
             (fst k \<in> set qs \<and> snd k \<in> set (voted_choices vdf (fst k)))) =
        (\<lambda>k. P k \<or> (fst k \<in> set (q # qs) \<and> snd k \<in> set (voted_choices vdf (fst k))))"
    by (rule ext) auto
  then show ?case
    by (simp add: choice_loop_recount Cons.IH)
qed

lemma voted_choices_iff: "c \<in> set (voted_choices vdf q) \<longleftrightarrow> 0 < choice_voter_count vdf q c"
proof -
  have "0 < length (filter (\<lambda>b. question_text b = q \<and> choice b = c) vdf) \<longleftrightarrow>
        (\<exists>b \<in> set vdf. question_text b = q \<and> choice b = c)"
    by (simp add: filter_empty_conv)
  then show ?thesis
    by (auto simp: voted_choices_def choice_voter_count_def)
qed

text \<open>
  What the loop computes: a row whose (question, choice) pair has at least one ballot gets
  the number of those ballots as its tally; every other row is left as it was.
\<close>

lemma reconcile_closed_form:
  "que_ans_df (reconcile st) =
     map (\<lambda>r. if 0 < choice_voter_count (voter_df st) (que_text r) (ans_text r)
              then r\<lparr>votes := CInt (int (choice_voter_count (voter_df st) (que_text r) (ans_text r)))\<rparr>
              else r) (que_ans_df st)"
proof -
  let ?vdf = "voter_df st" and ?qdf = "que_ans_df st"
  have start: "recount ?vdf (\<lambda>k. False) ?qdf = ?qdf"
    by (simp add: recount_def)
  have "row_loop ?vdf (map que_text ?qdf) ?qdf =
        recount ?vdf (\<lambda>k. False \<or> (fst k \<in> set (map que_text ?qdf) \<and>
                                     snd k \<in> set (voted_choices ?vdf (fst k)))) ?qdf"
    using row_loop_recount [of ?vdf "map que_text ?qdf" "\<lambda>k. False" ?qdf] start by simp
  also have "\<dots> = map (\<lambda>r. if 0 < choice_voter_count ?vdf (que_text r) (ans_text r)
              then r\<lparr>votes := CInt (int (choice_voter_count ?vdf (que_text r) (ans_text r)))\<rparr>
              else r) ?qdf"
    unfolding recount_def by (rule map_cong) (auto simp: voted_choices_iff)
  finally show ?thesis
    by (simp add: reconcile_def)
qed

lemma voter_df_reconcile: "voter_df (reconcile st) = voter_df st"
  by (simp add: reconcile_def)

subsection \<open>C1: the reconciled tally\<close>

text \<open>
  C1. The reconciled tally of every (question, choice) row of the question table should be
  the number of ballots with that pair, also when that number is zero. The loop runs over
  the choices that occur among the ballots of a question, so a row whose choice has no
  ballot is never assigned: on \<^const>\<open>stale_frames\<close> choice \<^verbatim>\<open>B\<close> of \<^verbatim>\<open>Q1\<close> has no ballot
  and keeps its raw tally \<^verbatim>\<open>7 votes\<close>, while choice \<^verbatim>\<open>A\<close> is recounted to 1.
  (For the rows that have a ballot the tally is the count: \<open>reconcile_closed_form\<close>.)
\<close>

theorem reconcile_keeps_stale_tally:
  "map votes (que_ans_df (reconcile stale_frames)) = [CInt 1, CStr ''7 votes'']
   \<and> choice_voter_count (voter_df stale_frames) ''Q1'' ''A'' = 1
   \<and> choice_voter_count (voter_df stale_frames) ''Q1'' ''B'' = 0"
  by (simp add: reconcile_def stale_frames_def voted_choices_def choice_voter_count_def
      set_votes_def)

subsection \<open>C9: what the reconciliation changes\<close>

text \<open>
  C9, as the code has it. The reconciliation assigns into the table bound to
  \<^verbatim>\<open>que_ans_df\<close>; no second table is made, and after the loop the raw tallies of the
  recounted rows are gone. What the loop leaves alone is everything but the
  \<^verbatim>\<open>votes\<close> column: the number and order of the rows, their question text, creation
  date and answer text, and the whole ballot table.
\<close>

theorem reconcile_frame:
  "voter_df (reconcile st) = voter_df st
   \<and> length (que_ans_df (reconcile st)) = length (que_ans_df st)
   \<and> map que_text (que_ans_df (reconcile st)) = map que_text (que_ans_df st)
   \<and> map que_created_at (que_ans_df (reconcile st)) = map que_created_at (que_ans_df st)
   \<and> map ans_text (que_ans_df (reconcile st)) = map ans_text (que_ans_df st)"
  by (simp add: voter_df_reconcile reconcile_closed_form comp_def if_distrib cong: if_cong)

text \<open>
  C9 as stated fails: the table bound to \<^verbatim>\<open>que_ans_df\<close> after the loop differs from the one
  before it.
\<close>

theorem reconcile_mutates_que_ans_df:
  "que_ans_df (reconcile stale_frames) \<noteq> que_ans_df stale_frames"
  by (simp add: reconcile_def stale_frames_def voted_choices_def choice_voter_count_def
      set_votes_def)

subsection \<open>C6: which duplicate question row survives\<close>

lemma find_filter: "find P (filter Q xs) = find (\<lambda>x. P x \<and> Q x) xs"
  by (induction xs) auto

lemma drop_duplicates_filter:
  "filter (\<lambda>x. key x = k) (drop_duplicates key rs) =
     (case find (\<lambda>x. key x = k) rs of None \<Rightarrow> [] | Some r \<Rightarrow> [r])"
proof (induction key rs rule: drop_duplicates.induct)
  case (1 key)
  show ?case by simp
next
  case (2 key r rs)
  show ?case
  proof (cases "key r = k")
    case True
    then have "find (\<lambda>x. key x = k \<and> key x \<noteq> key r) rs = None"
      by (simp add: find_None_iff)
    with True 2 show ?thesis by (simp add: find_filter)
  next
    case False
    then have "find (\<lambda>x. key x = k \<and> key x \<noteq> key r) rs = find (\<lambda>x. key x = k) rs"
      by (intro find_cong) auto
    with False 2 show ?thesis by (simp add: find_filter)
  qed
qed

lemma set_drop_duplicates_keys: "key ` set (drop_duplicates key rs) = key ` set rs"
proof (induction key rs rule: drop_duplicates.induct)
  case (1 key)
  show ?case by simp
next
  case (2 key r rs)
  have "key ` set rs \<subseteq> insert (key r) (key ` {x \<in> set rs. key x \<noteq> key r})" by auto
  with 2 show ?case by auto
qed

lemma set_drop_duplicates_subset: "set (drop_duplicates key rs) \<subseteq> set rs"
  by (induction key rs rule: drop_duplicates.induct) auto

lemma distinct_drop_duplicates: "distinct (map key (drop_duplicates key rs))"
proof (induction key rs rule: drop_duplicates.induct)
  case (1 key)
  show ?case by simp
next
  case (2 key r rs)
  have "key r \<notin> key ` set (drop_duplicates key (filter (\<lambda>x. key x \<noteq> key r) rs))"
    using set_drop_duplicates_subset [of key "filter (\<lambda>x. key x \<noteq> key r) rs"] by auto
  with 2 show ?case by simp
qed

text \<open>
  C6, as the code has it. \<^verbatim>\<open>drop_duplicates(subset=['que_text'])\<close> leaves one row for each
  distinct question text: the first row with that text in table order, with the creation
  time that row carries. (The aggregation by earliest creation time is commented out in
  the source.)
\<close>

theorem dedup_que_ans_keeps_first:
  "distinct (map que_text (dedup_que_ans qdf))
   \<and> set (map que_text (dedup_que_ans qdf)) = set (map que_text qdf)
   \<and> (\<forall>q \<in> set (map que_text qdf).
        \<exists>r. find (\<lambda>x. que_text x = q) qdf = Some r
          \<and> filter (\<lambda>x. que_text x = q) (dedup_que_ans qdf) = [r])"
proof -
  have "\<exists>r. find (\<lambda>x. que_text x = q) qdf = Some r
          \<and> filter (\<lambda>x. que_text x = q) (dedup_que_ans qdf) = [r]"
    if "q \<in> set (map que_text qdf)" for q
  proof -
    from that have "find (\<lambda>x. que_text x = q) qdf \<noteq> None"
      by (auto simp: find_None_iff)
    then obtain r where "find (\<lambda>x. que_text x = q) qdf = Some r" by auto
    then show ?thesis
      by (simp add: dedup_que_ans_def drop_duplicates_filter)
  qed
  then show ?thesis
    by (simp add: dedup_que_ans_def distinct_drop_duplicates set_drop_duplicates_keys)
qed

theorem dedup_que_ans_keeps_first_witness:
  "''Q1'' \<in> set (map que_text late_first)
   \<and> distinct (map que_text (dedup_que_ans late_first))
   \<and> filter (\<lambda>x. que_text x = ''Q1'') (dedup_que_ans late_first) =
       [\<lparr>que_text = ''Q1'', que_created_at = Some 1729418700, ans_text = ''A'', votes = CInt 1\<rparr>]"
proof -
  have m: "''Q1'' \<in> set (map que_text late_first)"
    by (simp add: late_first_def)
  have f: "find (\<lambda>x. que_text x = ''Q1'') late_first =
      Some \<lparr>que_text = ''Q1'', que_created_at = Some 1729418700, ans_text = ''A'', votes = CInt 1\<rparr>"
    by (simp add: late_first_def)
  from dedup_que_ans_keeps_first [of late_first] m f show ?thesis
    by auto
qed

text \<open>
  C6 as stated fails: on \<^const>\<open>late_first\<close> the surviving row of \<^verbatim>\<open>Q1\<close> carries 10:05, and a
  duplicate of \<^verbatim>\<open>Q1\<close> was created earlier, at 10:00.
\<close>

theorem dedup_que_ans_not_earliest:
  "map que_created_at (dedup_que_ans late_first) = [Some 1729418700]
   \<and> Some 1729418400 \<in> set (map que_created_at late_first)
   \<and> (1729418400 :: timestamp) < 1729418700"
  by (simp add: dedup_que_ans_def late_first_def)

subsection \<open>C8: the wall clock in the date functions\<close>

lemma epoch_seconds_examples:
  "epoch_seconds (at_ten 2024 10 22) = 1729591200"
  "epoch_seconds (at_ten 2024 10 23) = 1729677600"
  "epoch_seconds (at_eleven 2024 10 22) = 1729594800"
  "epoch_seconds (mk_datetime 2024 10 22) = 1729555200"
  by (simp_all add: epoch_seconds_def days_before_year_def days_before_month_def
      days_in_month_def is_leap_def at_ten_def at_eleven_def mk_datetime_def upt_rec [of _ 10])

lemma relative_date_str_date_only:
  "year nowa = year nowb \<Longrightarrow> month nowa = month nowb \<Longrightarrow> day nowa = day nowb \<Longrightarrow>
     relative_date_str nowa s = relative_date_str nowb s"
  by (simp add: relative_date_str_def strftime_dmy_def minus_one_day_def)

text \<open>
  C8, as the code has it. The date functions read the wall clock inside the core:
  \<^verbatim>\<open>parse_custom_date\<close> resolves \<^verbatim>\<open>Today\<close> and \<^verbatim>\<open>Yesterday\<close> against \<^verbatim>\<open>datetime.now()\<close>, and the
  call of \<^verbatim>\<open>pd.to_datetime\<close> it ends with can read the clock as well. What holds of
  \<^verbatim>\<open>parse_custom_date\<close> is this. A value that is a timestamp is returned as it is, whatever
  the clock. For a string, the result is what \<^verbatim>\<open>pd.to_datetime\<close> gives for the text handed
  to it; that text is the string itself when it contains neither \<^verbatim>\<open>Today\<close> nor \<^verbatim>\<open>Yesterday\<close>,
  and in every case depends on the clock through its calendar date only. So two calls on
  the same string agree when their clock readings fall on the same calendar day and
  \<^verbatim>\<open>pd.to_datetime\<close> answers alike for that text at both readings.
\<close>

theorem parse_custom_date_clock:
  "parse_custom_date to_datetime now (CTimestamp t) = Inr (Some t)
   \<and> parse_custom_date to_datetime now (CStr s) =
       (case to_datetime now (CStr (relative_date_str now s)) of
          Raised \<Rightarrow> Inl PandasError | Parsed u \<Rightarrow> Inr (Some u) | NaT \<Rightarrow> Inr None)
   \<and> (\<not> str_contains ''Today'' s \<and> \<not> str_contains ''Yesterday'' s \<longrightarrow>
        relative_date_str now s = s)
   \<and> (year nowa = year nowb \<and> month nowa = month nowb \<and> day nowa = day nowb \<longrightarrow>
        relative_date_str nowa s = relative_date_str nowb s
      \<and> (to_datetime nowa (CStr (relative_date_str nowa s)) =
           to_datetime nowb (CStr (relative_date_str nowa s)) \<longrightarrow>
         parse_custom_date to_datetime nowa (CStr s) = parse_custom_date to_datetime nowb (CStr s)))"
proof -
  have same: "relative_date_str nowa s = relative_date_str nowb s"
    if "year nowa = year nowb \<and> month nowa = month nowb \<and> day nowa = day nowb"
    using that relative_date_str_date_only [of nowa nowb s] by blast
  have plain: "\<not> str_contains ''Today'' s \<and> \<not> str_contains ''Yesterday'' s \<longrightarrow>
        relative_date_str now s = s"
    by (simp add: relative_date_str_def)
  show ?thesis
    using same plain by (auto simp: parse_custom_date_def)
qed

theorem parse_custom_date_clock_witness:
  "\<not> str_contains ''Today'' ''22/10/2024 10:00'' \<and> \<not> str_contains ''Yesterday'' ''22/10/2024 10:00''
   \<and> relative_date_str (at_ten 2024 10 23) ''22/10/2024 10:00'' = ''22/10/2024 10:00''
   \<and> year (at_ten 2024 10 22) = year (at_eleven 2024 10 22)
   \<and> month (at_ten 2024 10 22) = month (at_eleven 2024 10 22)
   \<and> day (at_ten 2024 10 22) = day (at_eleven 2024 10 22)
   \<and> relative_date_str (at_ten 2024 10 22) ''Today at 10:00'' = ''22/10/2024 10:00''
   \<and> relative_date_str (at_eleven 2024 10 22) ''Today at 10:00'' = ''22/10/2024 10:00''
   \<and> pandas_sample (at_ten 2024 10 22) (CStr ''22/10/2024 10:00'') =
       pandas_sample (at_eleven 2024 10 22) (CStr ''22/10/2024 10:00'')
   \<and> parse_custom_date pandas_sample (at_ten 2024 10 22) (CStr ''Today at 10:00'') =
       parse_custom_date pandas_sample (at_eleven 2024 10 22) (CStr ''Today at 10:00'')"
proof -
  have n: "\<not> str_contains ''Today'' ''22/10/2024 10:00'' \<and> \<not> str_contains ''Yesterday'' ''22/10/2024 10:00''"
    by simp
  have d: "year (at_ten 2024 10 22) = year (at_eleven 2024 10 22)
       \<and> month (at_ten 2024 10 22) = month (at_eleven 2024 10 22)
       \<and> day (at_ten 2024 10 22) = day (at_eleven 2024 10 22)"
    by (simp add: at_ten_def at_eleven_def)
  have r: "relative_date_str (at_ten 2024 10 22) ''Today at 10:00'' = ''22/10/2024 10:00''"
    by (simp add: relative_date_str_def at_ten_def strftime_dmy_def digit_char_def
        time_part_def str_strip_def is_space_def)
  have p: "pandas_sample (at_ten 2024 10 22) (CStr ''22/10/2024 10:00'') =
       pandas_sample (at_eleven 2024 10 22) (CStr ''22/10/2024 10:00'')"
    by (simp add: pandas_sample_def)
  note plain = parse_custom_date_clock
    [where to_datetime = pandas_sample and now = "at_ten 2024 10 23" and s = "''22/10/2024 10:00''"
       and nowa = "at_ten 2024 10 22" and nowb = "at_eleven 2024 10 22" and t = 0]
  note rel = parse_custom_date_clock
    [where to_datetime = pandas_sample and now = "at_ten 2024 10 22" and s = "''Today at 10:00''"
       and nowa = "at_ten 2024 10 22" and nowb = "at_eleven 2024 10 22" and t = 0]
  have h: "pandas_sample (at_ten 2024 10 22)
        (CStr (relative_date_str (at_ten 2024 10 22) ''Today at 10:00'')) =
      pandas_sample (at_eleven 2024 10 22)
        (CStr (relative_date_str (at_ten 2024 10 22) ''Today at 10:00''))"
    unfolding r by (rule p)
  note c1 = plain [THEN conjunct2, THEN conjunct2, THEN conjunct1, THEN mp, OF n]
  note c2 = rel [THEN conjunct2, THEN conjunct2, THEN conjunct2, THEN mp, OF d, THEN conjunct1]
  note c3 = rel [THEN conjunct2, THEN conjunct2, THEN conjunct2, THEN mp, OF d, THEN conjunct2,
    THEN mp, OF h]
  have r2: "relative_date_str (at_eleven 2024 10 22) ''Today at 10:00'' = ''22/10/2024 10:00''"
    using c2 r by simp
  from n d r r2 p c1 c3 show ?thesis
    by (intro conjI) (elim conjE, assumption)+
qed

text \<open>
  C8 as stated fails. The same value \<^verbatim>\<open>Today at 10:00\<close> gives 22 October when the clock
  reads 22 October and 23 October when it reads 23 October. The value \<^verbatim>\<open>today\<close>, which
  \<^verbatim>\<open>parse_custom_date\<close> passes on untouched, is resolved by pandas against the clock: two
  readings on the same day, at midnight and at 10:00, give two results.
\<close>

theorem parse_custom_date_reads_clock:
  "parse_custom_date pandas_sample (at_ten 2024 10 22) (CStr ''Today at 10:00'') = Inr (Some 1729591200)
   \<and> parse_custom_date pandas_sample (at_ten 2024 10 23) (CStr ''Today at 10:00'') = Inr (Some 1729677600)
   \<and> parse_custom_date pandas_sample (at_ten 2024 10 23) (CStr ''Yesterday at 10:00'') = Inr (Some 1729591200)
   \<and> parse_custom_date pandas_sample (mk_datetime 2024 10 22) (CStr ''today'') = Inr (Some 1729555200)
   \<and> parse_custom_date pandas_sample (at_ten 2024 10 22) (CStr ''today'') = Inr (Some 1729591200)"
proof -
  have rel: "relative_date_str (at_ten 2024 10 22) ''Today at 10:00'' = ''22/10/2024 10:00''"
    "relative_date_str (at_ten 2024 10 23) ''Today at 10:00'' = ''23/10/2024 10:00''"
    "relative_date_str (at_ten 2024 10 23) ''Yesterday at 10:00'' = ''22/10/2024 10:00''"
    "relative_date_str (mk_datetime 2024 10 22) ''today'' = ''today''"
    "relative_date_str (at_ten 2024 10 22) ''today'' = ''today''"
    by (simp_all add: relative_date_str_def at_ten_def strftime_dmy_def minus_one_day_def
        digit_char_def time_part_def str_strip_def is_space_def)
  show ?thesis
    by (simp add: parse_custom_date_def rel pandas_sample_def epoch_seconds_examples)
qed

subsection \<open>Ranking lemmas\<close>

lemma descending_sort_key_neg:
  fixes col :: "'a \<Rightarrow> 'v::linordered_ab_group_add"
  shows "descending col (sort_key (\<lambda>x. - col x) xs)"
proof -
  have "sorted (map (\<lambda>x. - col x) (sort_key (\<lambda>x. - col x) xs))" by simp
  then have "sorted_wrt (\<lambda>a b. - col a \<le> - col b) (sort_key (\<lambda>x. - col x) xs)"
    by (simp only: sorted_map)
  then show ?thesis by (simp add: descending_def)
qed

lemma ascending_sort_key: "ascending col (sort_key col xs)"
proof -
  have "sorted (map col (sort_key col xs))" by simp
  then show ?thesis by (simp only: sorted_map ascending_def)
qed

lemma descending_nlargest: "descending col (nlargest n col xs)"
  using descending_sort_key_neg [of col xs] by (simp add: descending_def nlargest_def)

lemma ascending_nsmallest: "ascending col (nsmallest n col xs)"
  using ascending_sort_key [of col xs] by (simp add: ascending_def nsmallest_def)

lemma descending_value_counts: "descending snd (value_counts key rows)"
  unfolding value_counts_def by (rule descending_sort_key_neg)

lemma length_nlargest: "length (nlargest n col xs) \<le> n"
  by (simp add: nlargest_def)

lemma length_nsmallest: "length (nsmallest n col xs) \<le> n"
  by (simp add: nsmallest_def)

lemma length_head: "length (head n xs) \<le> n"
  by (simp add: head_def)

lemma length_tail: "length (tail n xs) \<le> n"
  by (simp add: tail_def)

lemma snd_isna_part: "kv \<in> set (isna_part s) \<Longrightarrow> snd kv = None"
  by (simp add: isna_part_def)

lemma ascending_nsmallest_na: "ascending_na_last (nsmallest_na n s)"
proof -
  have "ascending snd (sort_key snd (dropna s))" by (rule ascending_sort_key)
  then have 1: "sorted_wrt (\<lambda>a b. le_na_last (snd a) (snd b)) (present (sort_key snd (dropna s)))"
    by (simp add: present_def sorted_wrt_map le_na_last_def ascending_def)
  have 2: "sorted_wrt (\<lambda>a b. le_na_last (snd a) (snd b)) (isna_part s)"
    by (rule sorted_wrt_mono_rel [of _ "\<lambda>_ _. True"]) (auto simp: le_na_last_def dest: snd_isna_part)
  have "sorted_wrt (\<lambda>a b. le_na_last (snd a) (snd b)) (present (sort_key snd (dropna s)) @ isna_part s)"
    using 1 2 by (auto simp: sorted_wrt_append le_na_last_def dest: snd_isna_part)
  then show ?thesis
    unfolding ascending_na_last_def nsmallest_na_def by (rule sorted_wrt_take)
qed

lemma descending_nlargest_na: "descending_na_last (nlargest_na n s)"
proof -
  have "descending snd (sort_key (\<lambda>kv. - snd kv) (dropna s))" by (rule descending_sort_key_neg)
  then have 1: "sorted_wrt (\<lambda>a b. ge_na_last (snd a) (snd b)) (present (sort_key (\<lambda>kv. - snd kv) (dropna s)))"
    by (simp add: present_def sorted_wrt_map ge_na_last_def descending_def)
  have 2: "sorted_wrt (\<lambda>a b. ge_na_last (snd a) (snd b)) (isna_part s)"
    by (rule sorted_wrt_mono_rel [of _ "\<lambda>_ _. True"]) (auto simp: ge_na_last_def dest: snd_isna_part)
  have "sorted_wrt (\<lambda>a b. ge_na_last (snd a) (snd b))
          (present (sort_key (\<lambda>kv. - snd kv) (dropna s)) @ isna_part s)"
    using 1 2 by (auto simp: sorted_wrt_append ge_na_last_def dest: snd_isna_part)
  then show ?thesis
    unfolding descending_na_last_def nlargest_na_def by (rule sorted_wrt_take)
qed

subsection \<open>C4: length and order of the ten outputs\<close>

text \<open>
  C4, as the code has it. For every \<^verbatim>\<open>voter_df\<close>, answer key and \<open>n\<close>, each of the ten
  outputs of \<^verbatim>\<open>calculate_insights\<close> has at most \<open>n\<close> entries. The most active voters, the
  early birds, the incorrectly answered questions, the good performers and the slowest
  questions are in descending order of their value; the least voted and the fastest
  questions are in ascending order; the inactive followers are in ascending order of the
  last voting time, the voters without any voting time last; the easy questions all have
  ratio 1. The least active voters are the last \<open>n\<close> entries of the descending
  \<^verbatim>\<open>value_counts\<close>, so they are in descending order of ballot count too.
\<close>

theorem insights_length_and_order:
  "length (active_voters (calculate_insights vdf cadf n)) \<le> n
   \<and> descending snd (active_voters (calculate_insights vdf cadf n))
   \<and> length (early_birds (calculate_insights vdf cadf n)) \<le> n
   \<and> descending snd (early_birds (calculate_insights vdf cadf n))
   \<and> length (incorrect_questions (calculate_insights vdf cadf n)) \<le> n
   \<and> descending snd (incorrect_questions (calculate_insights vdf cadf n))
   \<and> length (easy_questions (calculate_insights vdf cadf n)) \<le> n
   \<and> map snd (easy_questions (calculate_insights vdf cadf n)) =
       replicate (length (easy_questions (calculate_insights vdf cadf n))) 1
   \<and> length (least_active (calculate_insights vdf cadf n)) \<le> n
   \<and> descending snd (least_active (calculate_insights vdf cadf n))
   \<and> length (inactive_followers (calculate_insights vdf cadf n)) \<le> n
   \<and> ascending_na_last (inactive_followers (calculate_insights vdf cadf n))
   \<and> length (good_performers (calculate_insights vdf cadf n)) \<le> n
   \<and> descending accuracy (good_performers (calculate_insights vdf cadf n))
   \<and> length (least_voted (calculate_insights vdf cadf n)) \<le> n
   \<and> ascending snd (least_voted (calculate_insights vdf cadf n))
   \<and> length (fast_responses (calculate_insights vdf cadf n)) \<le> n
   \<and> ascending_na_last (fast_responses (calculate_insights vdf cadf n))
   \<and> length (slow_responses (calculate_insights vdf cadf n)) \<le> n
   \<and> descending_na_last (slow_responses (calculate_insights vdf cadf n))"
proof -
  have av: "descending snd (active_voters_of vdf n)"
    using descending_value_counts [of voter_name vdf]
    by (simp add: active_voters_of_def head_def descending_def)
  have la: "descending snd (least_active_of vdf n)"
    using descending_value_counts [of voter_name vdf]
    by (simp add: least_active_of_def tail_def descending_def)
  have eq: "map snd (easy_questions_of (merged_df vdf cadf) n) =
      replicate (length (easy_questions_of (merged_df vdf cadf) n)) 1"
    by (rule replicate_eqI)
      (auto simp: easy_questions_of_def head_def dest!: in_set_takeD)
  have lens: "length (inactive_followers_of vdf n) \<le> n" "length (fast_responses_of vdf n) \<le> n"
    "length (slow_responses_of vdf n) \<le> n"
    by (simp_all add: inactive_followers_of_def fast_responses_of_def slow_responses_of_def
        nsmallest_na_def nlargest_na_def)
  show ?thesis
    using av la eq lens
    by (simp add: calculate_insights_def length_head length_tail length_nlargest length_nsmallest
        active_voters_of_def least_active_of_def early_birds_of_def incorrect_questions_of_def
        good_performers_of_def least_voted_of_def descending_nlargest ascending_nsmallest
        ascending_nsmallest_na descending_nlargest_na inactive_followers_of_def
        fast_responses_of_def slow_responses_of_def easy_questions_of_def)
qed

text \<open>
  C4 as stated fails for the least active voters: with two ballots of \<^verbatim>\<open>a\<close> and one of \<^verbatim>\<open>b\<close>
  the output lists \<^verbatim>\<open>a\<close> (2 ballots) before \<^verbatim>\<open>b\<close> (1 ballot), which is not ascending.
\<close>

theorem least_active_not_ascending:
  "least_active (calculate_insights (load_data [] uneven_ballots) [] 2) = [(''a'', 2), (''b'', 1)]
   \<and> \<not> ascending snd (least_active (calculate_insights (load_data [] uneven_ballots) [] 2))"
  by (simp add: calculate_insights_def least_active_of_def tail_def value_counts_def
      load_data_def merge_left_def mk_loaded_def uneven_ballots_def ascending_def)

subsection \<open>C5: ballots without a matching question or key row\<close>













subsection \<open>Lemmas on grouping and on the top of a ranking\<close>

lemma set_groupby_keys [simp]: "set (groupby_keys key rows) = key ` set rows"
  by (simp add: groupby_keys_def)

lemma distinct_groupby_keys [simp]: "distinct (groupby_keys key rows)"
  by (simp add: groupby_keys_def)

lemma set_nlargest_subset: "set (nlargest n col xs) \<subseteq> set xs"
  using set_take_subset [of n "sort_key (\<lambda>x. - col x) xs"] by (simp add: nlargest_def)

lemma distinct_map_nlargest:
  assumes "distinct (map g xs)"
  shows "distinct (map g (nlargest n col xs))"
proof -
  let ?s = "sort_key (\<lambda>x. - col x) xs"
  from assms have "distinct xs" "inj_on g (set xs)"
    by (simp_all add: distinct_map)
  then have "distinct (map g ?s)"
    by (simp add: distinct_map)
  then have "distinct (take n (map g ?s))"
    by (rule distinct_take)
  then show ?thesis
    by (simp add: nlargest_def take_map)
qed

lemma sort_key_take_drop_le:
  assumes "a \<in> set (take n (sort_key f xs))" and "b \<in> set (drop n (sort_key f xs))"
  shows "f a \<le> f b"
proof -
  let ?s = "sort_key f xs"
  have "sorted (map f (take n ?s @ drop n ?s))" by simp
  then have "\<forall>x \<in> set (map f (take n ?s)). \<forall>y \<in> set (map f (drop n ?s)). x \<le> y"
    unfolding map_append sorted_append by blast
  with assms show ?thesis by auto
qed

lemma nlargest_top:
  fixes col :: "'a \<Rightarrow> 'v::linordered_ab_group_add"
  assumes "x \<in> set xs" and "x \<notin> set (nlargest n col xs)"
  shows "length (nlargest n col xs) = n \<and> (\<forall>y \<in> set (nlargest n col xs). col x \<le> col y)"
proof -
  let ?s = "sort_key (\<lambda>x. - col x) xs"
  have "set ?s = set (take n ?s) \<union> set (drop n ?s)"
    using set_append [of "take n ?s" "drop n ?s"] by simp
  with assms have d: "x \<in> set (drop n ?s)"
    by (auto simp: nlargest_def)
  then have "n < length ?s"
    by (cases "n < length ?s") auto
  then have len: "length (nlargest n col xs) = n"
    by (simp add: nlargest_def)
  have "col x \<le> col y" if "y \<in> set (nlargest n col xs)" for y
  proof -
    from that have "y \<in> set (take n ?s)" by (simp add: nlargest_def)
    from sort_key_take_drop_le [OF this d] show ?thesis by simp
  qed
  with len show ?thesis by blast
qed

lemma find_sorted_min:
  "sorted (map f xs) \<Longrightarrow> find P xs = Some w \<Longrightarrow> r \<in> set xs \<Longrightarrow> P r \<Longrightarrow> f w \<le> f r"
  by (induction xs) (auto split: if_splits)

lemma find_Some_in_set: "find P xs = Some w \<Longrightarrow> w \<in> set xs \<and> P w"
  by (induction xs) (auto split: if_splits)

subsection \<open>C2: good performers\<close>

lemma mk_performer_fields:
  assumes "g \<noteq> []"
  shows "1 \<le> count_col (mk_performer v g)"
    and "accuracy (mk_performer v g) =
           of_int (sum_col (mk_performer v g)) / of_int (count_col (mk_performer v g)) * 100"
    and "0 \<le> accuracy (mk_performer v g)"
    and "accuracy (mk_performer v g) \<le> 100"
proof -
  have pos: "0 < length g" using assms by simp
  show "1 \<le> count_col (mk_performer v g)"
    using assms by (cases g) (simp_all add: mk_performer_def)
  show "accuracy (mk_performer v g) =
           of_int (sum_col (mk_performer v g)) / of_int (count_col (mk_performer v g)) * 100"
    by (simp add: mk_performer_def)
  show "0 \<le> accuracy (mk_performer v g)"
    by (simp add: mk_performer_def)
  have "length (filter is_correct g) \<le> length g" by simp
  then have "(of_nat (length (filter is_correct g)) :: rat) \<le> of_nat (length g)"
    by (simp only: of_nat_le_iff)
  moreover have "(0::rat) < of_nat (length g)" using pos by simp
  ultimately have "(of_nat (length (filter is_correct g)) :: rat) / of_nat (length g) \<le> 1"
    by (simp add: divide_le_eq_1)
  then have "(of_nat (length (filter is_correct g)) :: rat) / of_nat (length g) * 100 \<le> 1 * 100"
    by (intro mult_right_mono) simp_all
  then show "accuracy (mk_performer v g) \<le> 100"
    by (simp add: mk_performer_def)
qed

lemma good_performers_scenario:
  "map (\<lambda>p. (performer_name p, accuracy p))
     (good_performers (calculate_insights (load_data scenario_questions scenario_ballots)
        scenario_answers 2)) = [(''v1'', 100), (''v2'', 0)]"
  by code_simp

lemma correct_answers_by_voter_rows:
  "(\<forall>e \<in> set (correct_answers_by_voter rdf cadf n).
       snd e = int (length (filter (\<lambda>m. voter_name (fst m) = fst e \<and> report_is_correct m)
                              (report_merged_df rdf cadf)))
     \<and> 1 \<le> snd e)
   \<and> descending snd (correct_answers_by_voter rdf cadf n)
   \<and> length (correct_answers_by_voter rdf cadf n) \<le> n"
proof -
  let ?ok = "filter report_is_correct (report_merged_df rdf cadf)"
  let ?cnt = "\<lambda>k. int (length (filter (\<lambda>m. voter_name (fst m) = k) ?ok))"
  let ?all = "map (\<lambda>k. (k, ?cnt k)) (groupby_keys (\<lambda>m. voter_name (fst m)) ?ok)"
  have cav: "correct_answers_by_voter rdf cadf n = nlargest n snd ?all"
    by (simp add: correct_answers_by_voter_def groupby_size_def groupby_agg_def)
  have "snd e = int (length (filter (\<lambda>m. voter_name (fst m) = fst e \<and> report_is_correct m)
                              (report_merged_df rdf cadf))) \<and> 1 \<le> snd e"
    if "e \<in> set (correct_answers_by_voter rdf cadf n)" for e
  proof -
    from that have "e \<in> set ?all"
      using set_nlargest_subset [of n snd ?all] cav by auto
    then obtain k where k: "k \<in> (\<lambda>m. voter_name (fst m)) ` set ?ok" and e: "e = (k, ?cnt k)"
      by auto
    from k have "filter (\<lambda>m. voter_name (fst m) = k) ?ok \<noteq> []"
      by (auto simp: filter_empty_conv)
    then have "1 \<le> ?cnt k"
      by (cases "filter (\<lambda>m. voter_name (fst m) = k) ?ok") simp_all
    moreover have "?cnt k = int (length (filter (\<lambda>m. voter_name (fst m) = k \<and> report_is_correct m)
                              (report_merged_df rdf cadf)))"
      by (simp add: conj_commute)
    ultimately show ?thesis by (simp add: e)
  qed
  moreover have "descending snd (correct_answers_by_voter rdf cadf n)"
    unfolding cav by (rule descending_nlargest)
  moreover have "length (correct_answers_by_voter rdf cadf n) \<le> n"
    unfolding cav by (rule length_nlargest)
  ultimately show ?thesis by blast
qed

text \<open>
  C2, as the code has it. In \<^verbatim>\<open>calculate_insights\<close> the good performers are ranked by
  accuracy. Every listed voter has at least one row in the merged data; its \<^verbatim>\<open>count\<close> is
  the number of its merged rows, its \<^verbatim>\<open>sum\<close> the number of correct ones, and its accuracy
  is \<^verbatim>\<open>sum / count * 100\<close>, between 0 and 100. The list is in descending order of
  accuracy, has at most \<open>n\<close> entries and names no voter twice; a voter with merged rows
  that is not listed is left out only because the list is full, and has an accuracy no
  larger than any listed one. On the end-to-end scenario with \<open>n = 2\<close> the list is \<^verbatim>\<open>v1\<close>
  with 100 and \<^verbatim>\<open>v2\<close> with 0. In the batch report of \<^verbatim>\<open>get_questions.py\<close> the value of a
  voter is instead the number of its correct merged rows, which is at least 1 for every
  listed voter; that list is in descending order of the number and has at most \<open>n\<close>
  entries.
\<close>

theorem good_performers_accuracy:
  "(\<forall>p \<in> set (good_performers (calculate_insights vdf cadf n)).
       count_col p =
         int (length (filter (\<lambda>r. voter_name r = performer_name p) (merged_df vdf cadf)))
     \<and> 1 \<le> count_col p
     \<and> sum_col p =
         int (length (filter (\<lambda>r. voter_name r = performer_name p \<and> is_correct r)
                        (merged_df vdf cadf)))
     \<and> accuracy p = of_int (sum_col p) / of_int (count_col p) * 100
     \<and> 0 \<le> accuracy p \<and> accuracy p \<le> 100)
   \<and> descending accuracy (good_performers (calculate_insights vdf cadf n))
   \<and> length (good_performers (calculate_insights vdf cadf n)) \<le> n
   \<and> distinct (map performer_name (good_performers (calculate_insights vdf cadf n)))
   \<and> (\<forall>v \<in> voter_name ` set (merged_df vdf cadf).
        v \<notin> performer_name ` set (good_performers (calculate_insights vdf cadf n)) \<longrightarrow>
          length (good_performers (calculate_insights vdf cadf n)) = n
        \<and> (\<forall>p \<in> set (good_performers (calculate_insights vdf cadf n)).
              accuracy (mk_performer v (filter (\<lambda>r. voter_name r = v) (merged_df vdf cadf)))
                \<le> accuracy p))
   \<and> map (\<lambda>p. (performer_name p, accuracy p))
       (good_performers (calculate_insights (load_data scenario_questions scenario_ballots)
          scenario_answers 2)) = [(''v1'', 100), (''v2'', 0)]
   \<and> (\<forall>e \<in> set (correct_answers_by_voter rdf cadf n).
        snd e = int (length (filter (\<lambda>m. voter_name (fst m) = fst e \<and> report_is_correct m)
                               (report_merged_df rdf cadf)))
      \<and> 1 \<le> snd e)
   \<and> descending snd (correct_answers_by_voter rdf cadf n)
   \<and> length (correct_answers_by_voter rdf cadf n) \<le> n"
proof -
  let ?mdf = "merged_df vdf cadf"
  let ?grp = "\<lambda>k. filter (\<lambda>r. voter_name r = k) ?mdf"
  let ?all = "map (\<lambda>k. mk_performer k (?grp k)) (groupby_keys voter_name ?mdf)"
  let ?gp = "good_performers (calculate_insights vdf cadf n)"
  have gp: "?gp = nlargest n accuracy ?all"
    by (simp add: calculate_insights_def good_performers_of_def)
  have rows: "count_col p = int (length (filter (\<lambda>r. voter_name r = performer_name p) ?mdf))
     \<and> 1 \<le> count_col p
     \<and> sum_col p = int (length (filter (\<lambda>r. voter_name r = performer_name p \<and> is_correct r) ?mdf))
     \<and> accuracy p = of_int (sum_col p) / of_int (count_col p) * 100
     \<and> 0 \<le> accuracy p \<and> accuracy p \<le> 100" if "p \<in> set ?gp" for p
  proof -
    from that have "p \<in> set ?all"
      using set_nlargest_subset [of n accuracy ?all] gp by auto
    then obtain k where k: "k \<in> voter_name ` set ?mdf" and p: "p = mk_performer k (?grp k)"
      by auto
    from k have ne: "?grp k \<noteq> []"
      by (auto simp: filter_empty_conv)
    have name: "performer_name p = k" by (simp add: p mk_performer_def)
    have c: "count_col p = int (length (?grp k))" by (simp add: p mk_performer_def)
    have s: "sum_col p = int (length (filter (\<lambda>r. voter_name r = k \<and> is_correct r) ?mdf))"
      by (simp add: p mk_performer_def)
    show ?thesis
      using mk_performer_fields [OF ne, of k] c s unfolding name p [symmetric]
      by simp
  qed
  have desc: "descending accuracy ?gp"
    unfolding gp by (rule descending_nlargest)
  have len: "length ?gp \<le> n"
    unfolding gp by (rule length_nlargest)
  have "map performer_name ?all = groupby_keys voter_name ?mdf"
    by (simp add: comp_def mk_performer_def)
  then have "distinct (map performer_name ?all)" by simp
  then have dist: "distinct (map performer_name ?gp)"
    unfolding gp by (rule distinct_map_nlargest)
  have top: "length ?gp = n \<and>
      (\<forall>p \<in> set ?gp. accuracy (mk_performer v (?grp v)) \<le> accuracy p)"
    if v: "v \<in> voter_name ` set ?mdf" and out: "v \<notin> performer_name ` set ?gp" for v
  proof -
    let ?x = "mk_performer v (?grp v)"
    have "?x \<in> set ?all" using v by auto
    moreover have "performer_name ?x = v" by (simp add: mk_performer_def)
    then have "?x \<notin> set ?gp" using out by (metis imageI)
    ultimately show ?thesis
      using nlargest_top [of ?x ?all n accuracy] gp by simp
  qed
  have dash: "(\<forall>p \<in> set ?gp.
       count_col p = int (length (filter (\<lambda>r. voter_name r = performer_name p) ?mdf))
     \<and> 1 \<le> count_col p
     \<and> sum_col p = int (length (filter (\<lambda>r. voter_name r = performer_name p \<and> is_correct r) ?mdf))
     \<and> accuracy p = of_int (sum_col p) / of_int (count_col p) * 100
     \<and> 0 \<le> accuracy p \<and> accuracy p \<le> 100)
   \<and> descending accuracy ?gp \<and> length ?gp \<le> n \<and> distinct (map performer_name ?gp)
   \<and> (\<forall>v \<in> voter_name ` set ?mdf. v \<notin> performer_name ` set ?gp \<longrightarrow>
          length ?gp = n
        \<and> (\<forall>p \<in> set ?gp. accuracy (mk_performer v (?grp v)) \<le> accuracy p))"
    using rows desc len dist top by blast
  show ?thesis
    using dash good_performers_scenario correct_answers_by_voter_rows [of rdf cadf n]
    by (intro conjI) (elim conjE, assumption)+
qed

theorem good_performers_accuracy_witness:
  "\<lparr>performer_name = ''v1'', count_col = 2, sum_col = 2, accuracy = 100\<rparr>
      \<in> set (good_performers (calculate_insights
                 (load_data scenario_questions scenario_ballots) scenario_answers 1))
   \<and> ''v2'' \<in> voter_name ` set (merged_df (load_data scenario_questions scenario_ballots)
                                  scenario_answers)
   \<and> ''v2'' \<notin> performer_name ` set (good_performers (calculate_insights
                 (load_data scenario_questions scenario_ballots) scenario_answers 1))
   \<and> length (good_performers (calculate_insights
                 (load_data scenario_questions scenario_ballots) scenario_answers 1)) = 1
   \<and> accuracy (mk_performer ''v2'' (filter (\<lambda>r. voter_name r = ''v2'')
         (merged_df (load_data scenario_questions scenario_ballots) scenario_answers))) \<le> 100
   \<and> int (length (filter (\<lambda>r. voter_name r = ''v1'')
         (merged_df (load_data scenario_questions scenario_ballots) scenario_answers))) = 2
   \<and> correct_answers_by_voter (report_voter_df scenario_questions scenario_ballots)
         scenario_answers 1 = [(''v1'', 1)]
   \<and> int (length (filter (\<lambda>m. voter_name (fst m) = ''v1'' \<and> report_is_correct m)
         (report_merged_df (report_voter_df scenario_questions scenario_ballots) scenario_answers))) = 1"
proof -
  let ?vdf = "load_data scenario_questions scenario_ballots"
  let ?p = "\<lparr>performer_name = ''v1'', count_col = 2, sum_col = 2, accuracy = 100\<rparr>"
  have gp: "good_performers (calculate_insights ?vdf scenario_answers 1) = [?p]"
    by code_simp
  have v2: "''v2'' \<in> voter_name ` set (merged_df ?vdf scenario_answers)"
    by code_simp
  have out: "''v2'' \<notin> performer_name ` set [?p]"
    by simp
  have cav: "correct_answers_by_voter (report_voter_df scenario_questions scenario_ballots)
      scenario_answers 1 = [(''v1'', 1)]"
    by code_simp
  note inst = good_performers_accuracy
    [where vdf = ?vdf and cadf = scenario_answers and n = 1
       and rdf = "report_voter_df scenario_questions scenario_ballots", unfolded gp cav]
  from inst have row: "count_col ?p =
      int (length (filter (\<lambda>r. voter_name r = performer_name ?p) (merged_df ?vdf scenario_answers)))"
    by simp
  from inst v2 out have top: "\<forall>p \<in> set [?p].
      accuracy (mk_performer ''v2'' (filter (\<lambda>r. voter_name r = ''v2'')
         (merged_df ?vdf scenario_answers))) \<le> accuracy p"
    by blast
  from inst have "\<forall>e \<in> set [(''v1'', 1 :: int)].
      snd e = int (length (filter (\<lambda>m. voter_name (fst m) = fst e \<and> report_is_correct m)
         (report_merged_df (report_voter_df scenario_questions scenario_ballots) scenario_answers)))
      \<and> 1 \<le> snd e"
    by blast
  then have rep: "int (length (filter (\<lambda>m. voter_name (fst m) = ''v1'' \<and> report_is_correct m)
         (report_merged_df (report_voter_df scenario_questions scenario_ballots) scenario_answers))) = 1"
    by simp
  show ?thesis
    using row top v2 rep cav unfolding gp by simp
qed

text \<open>
  C2 as stated fails for the batch report: on the end-to-end scenario
  \<^verbatim>\<open>get_questions.py\<close> lists \<^verbatim>\<open>v1\<close> with the value 1, the number of its correct ballots, and
  does not list \<^verbatim>\<open>v2\<close>, which has one merged ballot and accuracy 0.
\<close>

theorem correct_answers_by_voter_scenario:
  "correct_answers_by_voter (report_voter_df scenario_questions scenario_ballots)
     scenario_answers 2 = [(''v1'', 1)]"
  by code_simp

subsection \<open>C3: early birds\<close>

lemma notna_response_idem: "notna_response (notna_response vdf) = notna_response vdf"
  by (simp add: notna_response_def)

lemma sort_values_notna:
  "sort_values_response_time (notna_response vdf) =
     sort_key (\<lambda>r. case response_time r of None \<Rightarrow> 0 | Some t \<Rightarrow> t) (notna_response vdf)"
proof -
  have "filter (\<lambda>r. response_time r = None) (notna_response vdf) = []"
    by (auto simp: notna_response_def filter_empty_conv)
  then show ?thesis
    by (simp add: sort_values_response_time_def notna_response_idem)
qed

lemma first_response_of_question:
  fixes vdf :: "'a timed_row_scheme list"
  assumes "q \<in> question_text ` set (notna_response vdf)"
  shows "\<exists>w t. filter (\<lambda>r. question_text r = q) (first_responses vdf) = [w]
           \<and> find (\<lambda>r. question_text r = q) (sort_values_response_time (notna_response vdf)) = Some w
           \<and> w \<in> set vdf \<and> response_time w = Some t
           \<and> (\<forall>r \<in> set vdf. question_text r = q \<longrightarrow> (\<forall>u. response_time r = Some u \<longrightarrow> t \<le> u))"
proof -
  let ?k = "\<lambda>r :: 'a timed_row_scheme. case response_time r of None \<Rightarrow> 0 | Some t \<Rightarrow> t"
  let ?s = "sort_values_response_time (notna_response vdf)"
  have s: "?s = sort_key ?k (notna_response vdf)" by (rule sort_values_notna)
  have set_s: "set ?s = set (notna_response vdf)" by (simp add: s)
  from assms have "find (\<lambda>r. question_text r = q) ?s \<noteq> None"
    unfolding find_None_iff set_s by auto
  then obtain w where w: "find (\<lambda>r. question_text r = q) ?s = Some w" by auto
  from find_Some_in_set [OF w] have w_in: "w \<in> set (notna_response vdf)" and wq: "question_text w = q"
    by (simp_all add: set_s)
  then obtain t where t: "response_time w = Some t" and w_vdf: "w \<in> set vdf"
    by (auto simp: notna_response_def)
  have sorted_s: "sorted (map ?k ?s)" unfolding s by simp
  have least: "t \<le> u" if "r \<in> set vdf" "question_text r = q" "response_time r = Some u" for r u
  proof -
    from that have "r \<in> set (notna_response vdf)" by (simp add: notna_response_def)
    then have "r \<in> set ?s" unfolding set_s .
    from find_sorted_min [OF sorted_s w this] that(2) have "?k w \<le> ?k r" by simp
    then show ?thesis by (simp add: t that(3))
  qed
  have "filter (\<lambda>r. question_text r = q) (first_responses vdf) = [w]"
    by (simp add: first_responses_def drop_duplicates_filter w)
  with w w_vdf t least show ?thesis by blast
qed

lemma no_first_response:
  assumes "q \<notin> question_text ` set (notna_response vdf)"
  shows "filter (\<lambda>r. question_text r = q) (first_responses vdf) = []"
proof -
  have "set (sort_values_response_time (notna_response vdf)) = set (notna_response vdf)"
    by (simp add: sort_values_notna)
  with assms have "find (\<lambda>r. question_text r = q) (sort_values_response_time (notna_response vdf)) = None"
    unfolding find_None_iff by auto
  then show ?thesis
    by (simp add: first_responses_def drop_duplicates_filter)
qed

text \<open>
  The early birds of \<^verbatim>\<open>calculate_insights\<close> are counted from one row per question. A question with at least
  one ballot of known response time contributes exactly one row: the first row of that
  question in the order of \<^verbatim>\<open>sort_values('response_time')\<close>, whose response time is the least
  among the known response times of the question. A question without any known response
  time contributes no row. A voter's value is the number of rows it has among these; the
  list is in descending order of that number, has at most \<open>n\<close> entries and names no voter
  twice, and a credited voter is left out only when the list is full and its number is
  no larger than any listed one.
\<close>

lemma early_birds_first_response:
  "(\<forall>q \<in> question_text ` set (notna_response vdf).
      \<exists>w t. filter (\<lambda>r. question_text r = q) (first_responses vdf) = [w]
        \<and> find (\<lambda>r. question_text r = q) (sort_values_response_time (notna_response vdf)) = Some w
        \<and> w \<in> set vdf \<and> response_time w = Some t
        \<and> (\<forall>r \<in> set vdf. question_text r = q \<longrightarrow> (\<forall>u. response_time r = Some u \<longrightarrow> t \<le> u)))
   \<and> (\<forall>q. q \<notin> question_text ` set (notna_response vdf) \<longrightarrow>
        filter (\<lambda>r. question_text r = q) (first_responses vdf) = [])
   \<and> (\<forall>e \<in> set (early_birds (calculate_insights vdf cadf n)).
        snd e = int (length (filter (\<lambda>r. voter_name r = fst e) (first_responses vdf)))
      \<and> 1 \<le> snd e)
   \<and> descending snd (early_birds (calculate_insights vdf cadf n))
   \<and> length (early_birds (calculate_insights vdf cadf n)) \<le> n
   \<and> distinct (map fst (early_birds (calculate_insights vdf cadf n)))
   \<and> (\<forall>v \<in> voter_name ` set (first_responses vdf).
        v \<notin> fst ` set (early_birds (calculate_insights vdf cadf n)) \<longrightarrow>
          length (early_birds (calculate_insights vdf cadf n)) = n
        \<and> (\<forall>e \<in> set (early_birds (calculate_insights vdf cadf n)).
              int (length (filter (\<lambda>r. voter_name r = v) (first_responses vdf))) \<le> snd e))"
proof -
  let ?fr = "first_responses vdf"
  let ?cnt = "\<lambda>k. int (length (filter (\<lambda>r. voter_name r = k) ?fr))"
  let ?all = "map (\<lambda>k. (k, ?cnt k)) (groupby_keys voter_name ?fr)"
  let ?eb = "early_birds (calculate_insights vdf cadf n)"
  have eb: "?eb = nlargest n snd ?all"
    by (simp add: calculate_insights_def early_birds_of_def groupby_size_def groupby_agg_def)
  have rows: "snd e = ?cnt (fst e) \<and> 1 \<le> snd e" if "e \<in> set ?eb" for e
  proof -
    from that have "e \<in> set ?all"
      using set_nlargest_subset [of n snd ?all] eb by auto
    then obtain k where k: "k \<in> voter_name ` set ?fr" and e: "e = (k, ?cnt k)"
      by auto
    from k have "filter (\<lambda>r. voter_name r = k) ?fr \<noteq> []"
      by (auto simp: filter_empty_conv)
    then have "1 \<le> ?cnt k"
      by (cases "filter (\<lambda>r. voter_name r = k) ?fr") simp_all
    then show ?thesis by (simp add: e)
  qed
  have desc: "descending snd ?eb"
    unfolding eb by (rule descending_nlargest)
  have len: "length ?eb \<le> n"
    unfolding eb by (rule length_nlargest)
  have "map fst ?all = groupby_keys voter_name ?fr"
    by (simp add: comp_def)
  then have "distinct (map fst ?all)" by simp
  then have dist: "distinct (map fst ?eb)"
    unfolding eb by (rule distinct_map_nlargest)
  have top: "length ?eb = n \<and> (\<forall>e \<in> set ?eb. ?cnt v \<le> snd e)"
    if v: "v \<in> voter_name ` set ?fr" and out: "v \<notin> fst ` set ?eb" for v
  proof -
    let ?x = "(v, ?cnt v)"
    have "?x \<in> set ?all" using v by auto
    moreover have "?x \<notin> set ?eb" using out by (metis fst_conv imageI)
    ultimately show ?thesis
      using nlargest_top [of ?x ?all n snd] eb by simp
  qed
  show ?thesis
    using first_response_of_question [of _ vdf] no_first_response [of _ vdf]
      rows desc len dist top
    by blast
qed

lemma early_birds_first_response_example:
  "''Q1'' \<in> question_text ` set (notna_response two_question_voter_df)
   \<and> map voter_name (filter (\<lambda>r. question_text r = ''Q1'') (first_responses two_question_voter_df))
       = [''v2'']
   \<and> map response_time (filter (\<lambda>r. question_text r = ''Q1'') (first_responses two_question_voter_df))
       = [Some 120]
   \<and> ''Q7'' \<notin> question_text ` set (notna_response two_question_voter_df)
   \<and> filter (\<lambda>r. question_text r = ''Q7'') (first_responses two_question_voter_df) = []
   \<and> early_birds (calculate_insights two_question_voter_df scenario_answers 1) = [(''v1'', 1)]
   \<and> int (length (filter (\<lambda>r. voter_name r = ''v1'') (first_responses two_question_voter_df))) = 1
   \<and> ''v2'' \<in> voter_name ` set (first_responses two_question_voter_df)
   \<and> ''v2'' \<notin> fst ` set (early_birds (calculate_insights two_question_voter_df scenario_answers 1))
   \<and> int (length (filter (\<lambda>r. voter_name r = ''v2'') (first_responses two_question_voter_df))) \<le> 1"
proof -
  let ?vdf = "two_question_voter_df"
  have h1: "''Q1'' \<in> question_text ` set (notna_response ?vdf)"
    by code_simp
  have f1: "map voter_name (filter (\<lambda>r. question_text r = ''Q1'') (first_responses ?vdf)) = [''v2'']"
    by code_simp
  have t1: "map response_time (filter (\<lambda>r. question_text r = ''Q1'') (first_responses ?vdf)) = [Some 120]"
    by code_simp
  have h2: "''Q7'' \<notin> question_text ` set (notna_response ?vdf)"
    by code_simp
  have eb: "early_birds (calculate_insights ?vdf scenario_answers 1) = [(''v1'', 1)]"
    by code_simp
  have h3: "''v2'' \<in> voter_name ` set (first_responses ?vdf)"
    by code_simp
  have out: "''v2'' \<notin> fst ` set [(''v1'', 1 :: int)]"
    by simp
  note inst = early_birds_first_response [of ?vdf scenario_answers 1, unfolded eb]
  from inst h2 have c2: "filter (\<lambda>r. question_text r = ''Q7'') (first_responses ?vdf) = []"
    by blast
  from inst have "\<forall>e \<in> set [(''v1'', 1 :: int)].
      snd e = int (length (filter (\<lambda>r. voter_name r = fst e) (first_responses ?vdf))) \<and> 1 \<le> snd e"
    by blast
  then have c3: "int (length (filter (\<lambda>r. voter_name r = ''v1'') (first_responses ?vdf))) = 1"
    by simp
  from inst h3 out have "\<forall>e \<in> set [(''v1'', 1 :: int)].
      int (length (filter (\<lambda>r. voter_name r = ''v2'') (first_responses ?vdf))) \<le> snd e"
    by blast
  then have c4: "int (length (filter (\<lambda>r. voter_name r = ''v2'') (first_responses ?vdf))) \<le> 1"
    by simp
  show ?thesis
    using h1 f1 t1 h2 c2 eb c3 h3 c4 by simp
qed

text \<open>
  C3. A question none of whose ballots has a known response time should credit no voter.
  \<^verbatim>\<open>calculate_insights\<close> removes the ballots without response time before it sorts
  (\<open>early_birds_first_response\<close>); the batch report of \<^verbatim>\<open>get_questions.py\<close> sorts all
  ballots, the missing response times last, and keeps the first row of every question.
  On the scenario with the ballot of \<^verbatim>\<open>v4\<close> on \<^verbatim>\<open>Q7\<close>, a question that is not in the question
  table, the only ballot of \<^verbatim>\<open>Q7\<close> has no response time, yet the batch report credits \<^verbatim>\<open>v4\<close>
  with one first response; \<^verbatim>\<open>calculate_insights\<close> credits only \<^verbatim>\<open>v2\<close>.
\<close>

theorem report_early_birds_credits_missing:
  "map response_time (report_voter_df scenario_questions (scenario_ballots @ [ballot_v4])) =
     [Some 300, Some 120, None]
   \<and> map question_text (report_voter_df scenario_questions (scenario_ballots @ [ballot_v4])) =
     [''Q1'', ''Q1'', ''Q7'']
   \<and> (''v4'', 1) \<in> set (report_early_birds
       (report_voter_df scenario_questions (scenario_ballots @ [ballot_v4])) 5)
   \<and> early_birds (calculate_insights
       (load_data scenario_questions (scenario_ballots @ [ballot_v4])) scenario_answers 5) =
     [(''v2'', 1)]"
  by code_simp

subsection \<open>C10: keyword recognition in \<^verbatim>\<open>convert_date\<close>\<close>

text \<open>
  C10, as the code has it. The keyword recognition of \<^verbatim>\<open>convert_date\<close> itself is exact and
  case-sensitive: it returns a Python datetime, with a fixed calendar date, for exactly
  the four strings \<^verbatim>\<open>TODAY\<close>, \<^verbatim>\<open>YESTERDAY\<close>, \<^verbatim>\<open>SUNDAY\<close> and \<^verbatim>\<open>FRIDAY\<close> (22, 21, 20 and 18
  October 2024), whatever the clock and the parser. Every other value, also another
  casing or a compound form, is handed to \<^verbatim>\<open>pd.to_datetime\<close> with day-first parsing, and
  \<^verbatim>\<open>convert_date\<close> stores what that call gives: the timestamp, the missing marker when the
  value does not parse, the value itself when the call raises; \<^verbatim>\<open>convert_date\<close> never
  raises. That call is not always a parse of an absolute date: pandas resolves the
  lower-case string \<^verbatim>\<open>today\<close> against the wall clock, and then \<^verbatim>\<open>convert_date\<close> stores the
  current instant.
\<close>

theorem convert_date_keywords_exact:
  "convert_date to_datetime now (CStr ''TODAY'') = PyDatetime (mk_datetime 2024 10 22)
   \<and> convert_date to_datetime now (CStr ''YESTERDAY'') = PyDatetime (mk_datetime 2024 10 21)
   \<and> convert_date to_datetime now (CStr ''SUNDAY'') = PyDatetime (mk_datetime 2024 10 20)
   \<and> convert_date to_datetime now (CStr ''FRIDAY'') = PyDatetime (mk_datetime 2024 10 18)
   \<and> ((\<exists>d. convert_date to_datetime now v = PyDatetime d) \<longleftrightarrow>
        v \<in> {CStr ''TODAY'', CStr ''YESTERDAY'', CStr ''SUNDAY'', CStr ''FRIDAY''})
   \<and> (v \<notin> {CStr ''TODAY'', CStr ''YESTERDAY'', CStr ''SUNDAY'', CStr ''FRIDAY''} \<longrightarrow>
        convert_date to_datetime now v =
          (case to_datetime now v of
             Raised \<Rightarrow> Unconverted v | Parsed t \<Rightarrow> PdTimestamp t | NaT \<Rightarrow> PdNaT))
   \<and> (to_datetime now (CStr ''today'') = Parsed (epoch_seconds now) \<longrightarrow>
        convert_date to_datetime now (CStr ''today'') = PdTimestamp (epoch_seconds now))"
proof -
  have other: "convert_date to_datetime now v =
          (case to_datetime now v of
             Raised \<Rightarrow> Unconverted v | Parsed t \<Rightarrow> PdTimestamp t | NaT \<Rightarrow> PdNaT)"
    if "v \<notin> {CStr ''TODAY'', CStr ''YESTERDAY'', CStr ''SUNDAY'', CStr ''FRIDAY''}" for v
    using that by (simp add: convert_date_def)
  have no_py: "\<not> (\<exists>d. convert_date to_datetime now v = PyDatetime d)"
    if "v \<notin> {CStr ''TODAY'', CStr ''YESTERDAY'', CStr ''SUNDAY'', CStr ''FRIDAY''}"
    using other [OF that] by (cases "to_datetime now v") simp_all
  have py: "\<exists>d. convert_date to_datetime now v = PyDatetime d"
    if "v \<in> {CStr ''TODAY'', CStr ''YESTERDAY'', CStr ''SUNDAY'', CStr ''FRIDAY''}"
    using that by (auto simp: convert_date_def)
  have today: "CStr ''today'' \<notin> {CStr ''TODAY'', CStr ''YESTERDAY'', CStr ''SUNDAY'', CStr ''FRIDAY''}"
    by simp
  have kw: "convert_date to_datetime now (CStr ''TODAY'') = PyDatetime (mk_datetime 2024 10 22)
   \<and> convert_date to_datetime now (CStr ''YESTERDAY'') = PyDatetime (mk_datetime 2024 10 21)
   \<and> convert_date to_datetime now (CStr ''SUNDAY'') = PyDatetime (mk_datetime 2024 10 20)
   \<and> convert_date to_datetime now (CStr ''FRIDAY'') = PyDatetime (mk_datetime 2024 10 18)"
    by (simp add: convert_date_def)
  have t: "to_datetime now (CStr ''today'') = Parsed (epoch_seconds now) \<longrightarrow>
        convert_date to_datetime now (CStr ''today'') = PdTimestamp (epoch_seconds now)"
    using other [OF today] by simp
  show ?thesis
    using kw no_py py other [of v] t by blast
qed

theorem convert_date_keywords_exact_witness:
  "CStr ''Today at 3pm'' \<notin> {CStr ''TODAY'', CStr ''YESTERDAY'', CStr ''SUNDAY'', CStr ''FRIDAY''}
   \<and> convert_date pandas_sample (at_ten 2024 10 22) (CStr ''Today at 3pm'') = PdNaT
   \<and> CStr ''3/4/2024'' \<notin> {CStr ''TODAY'', CStr ''YESTERDAY'', CStr ''SUNDAY'', CStr ''FRIDAY''}
   \<and> convert_date pandas_sample (at_ten 2024 10 22) (CStr ''3/4/2024'') = PdTimestamp 1712102400
   \<and> pandas_sample (at_ten 2024 10 22) (CStr ''today'') = Parsed (epoch_seconds (at_ten 2024 10 22))
   \<and> convert_date pandas_sample (at_ten 2024 10 22) (CStr ''today'') =
       PdTimestamp (epoch_seconds (at_ten 2024 10 22))"
proof -
  have a: "CStr ''Today at 3pm'' \<notin> {CStr ''TODAY'', CStr ''YESTERDAY'', CStr ''SUNDAY'', CStr ''FRIDAY''}"
    by simp
  have b: "CStr ''3/4/2024'' \<notin> {CStr ''TODAY'', CStr ''YESTERDAY'', CStr ''SUNDAY'', CStr ''FRIDAY''}"
    by simp
  have c: "pandas_sample (at_ten 2024 10 22) (CStr ''today'') = Parsed (epoch_seconds (at_ten 2024 10 22))"
    by (simp add: pandas_sample_def)
  have pa: "pandas_sample (at_ten 2024 10 22) (CStr ''Today at 3pm'') = NaT"
    by (simp add: pandas_sample_def)
  have pb: "pandas_sample (at_ten 2024 10 22) (CStr ''3/4/2024'') = Parsed 1712102400"
    by (simp add: pandas_sample_def)
  from convert_date_keywords_exact
    [where to_datetime = pandas_sample and now = "at_ten 2024 10 22" and v = "CStr ''Today at 3pm''"] a pa
  have ra: "convert_date pandas_sample (at_ten 2024 10 22) (CStr ''Today at 3pm'') = PdNaT"
    by simp
  from convert_date_keywords_exact
    [where to_datetime = pandas_sample and now = "at_ten 2024 10 22" and v = "CStr ''3/4/2024''"] b pb
  have rb: "convert_date pandas_sample (at_ten 2024 10 22) (CStr ''3/4/2024'') = PdTimestamp 1712102400"
    by simp
  from convert_date_keywords_exact
    [where to_datetime = pandas_sample and now = "at_ten 2024 10 22" and v = "CStr ''today''"] c
  have rc: "convert_date pandas_sample (at_ten 2024 10 22) (CStr ''today'') =
       PdTimestamp (epoch_seconds (at_ten 2024 10 22))"
    by simp
  show ?thesis
    using a b c ra rb rc by simp
qed

text \<open>
  C10 as stated fails on its own example \<^verbatim>\<open>today\<close>: the value is not a keyword of
  \<^verbatim>\<open>convert_date\<close>, it reaches \<^verbatim>\<open>pd.to_datetime\<close>, and pandas resolves it to the instant the
  clock shows, so the stored value is neither the missing marker nor the parse of an
  absolute date, and it changes from one day to the next.
\<close>

theorem convert_date_today_resolved:
  "convert_date pandas_sample (at_ten 2024 10 22) (CStr ''today'') = PdTimestamp 1729591200
   \<and> convert_date pandas_sample (at_ten 2024 10 23) (CStr ''today'') = PdTimestamp 1729677600
   \<and> convert_date pandas_sample (at_ten 2024 10 22) (CStr ''today'') \<noteq> PdNaT"
  by (simp add: convert_date_def pandas_sample_def epoch_seconds_examples)

subsection \<open>C7: \<^verbatim>\<open>convert_vote_count\<close>\<close>

text \<open>
  C7, as the code has it. \<^verbatim>\<open>convert_vote_count\<close> leaves every value that is not a string
  containing \<^verbatim>\<open>votes\<close> unchanged. A string that contains \<^verbatim>\<open>votes\<close> is replaced by the
  integer value of its first white-space separated token when that token is an integer
  literal (so \<^verbatim>\<open>N votes\<close> becomes \<open>N\<close>), and raises \<^verbatim>\<open>ValueError\<close> when it is not: there
  is no fallback for a malformed tally.
\<close>

theorem convert_vote_count_cases:
  "convert_vote_count (CInt n :: cell) = Inr (CInt n)
   \<and> convert_vote_count (CTimestamp t :: cell) = Inr (CTimestamp t)
   \<and> convert_vote_count (CBlank :: cell) = Inr CBlank
   \<and> (\<not> str_contains ''votes'' s \<longrightarrow> convert_vote_count (CStr s :: cell) = Inr (CStr s))
   \<and> (ds \<noteq> [] \<and> (\<forall>c \<in> set ds. is_digit c) \<longrightarrow>
        convert_vote_count (CStr (ds @ '' votes'') :: cell) = Inr (CInt (int (dec_value ds))))
   \<and> (str_contains ''votes'' s' \<and> str_split s' = tok # toks \<longrightarrow>
        convert_vote_count (CStr s' :: cell) =
          (case py_int tok of None \<Rightarrow> Inl ValueError | Some k \<Rightarrow> Inr (CInt k)))"
proof -
  have digits: "convert_vote_count (CStr (ds @ '' votes'') :: cell) = Inr (CInt (int (dec_value ds)))"
    if ne: "ds \<noteq> []" and dig: "\<forall>c \<in> set ds. is_digit c"
  proof -
    have sp: "is_space CHR '' ''" by (simp add: is_space_def)
    have nsp: "\<forall>c \<in> set ds. \<not> is_space c" using dig is_digit_not_space by blast
    have split: "str_split (ds @ CHR '' '' # ''votes'') = ds # str_split ''votes''"
      by (rule str_split_token_first [OF ne nsp sp])
    have "str_contains ''votes'' ''votes''" by simp
    then have "str_contains ''votes'' (ds @ '' votes'')"
      using str_contains_append [of "''votes''" "''votes''" "ds @ '' ''"] by simp
    then show ?thesis
      using split py_int_digits [OF ne dig] by (simp add: convert_vote_count_def)
  qed
  have other: "str_contains ''votes'' s' \<and> str_split s' = tok # toks \<longrightarrow>
        convert_vote_count (CStr s' :: cell) =
          (case py_int tok of None \<Rightarrow> Inl ValueError | Some k \<Rightarrow> Inr (CInt k))"
    by (simp add: convert_vote_count_def)
  show ?thesis
    using digits other by (simp add: convert_vote_count_def)
qed

theorem convert_vote_count_cases_witness:
  "\<not> str_contains ''votes'' ''seven''
   \<and> convert_vote_count (CStr ''seven'' :: cell) = Inr (CStr ''seven'')
   \<and> ''42'' \<noteq> [] \<and> is_digit CHR ''4'' \<and> is_digit CHR ''2''
   \<and> convert_vote_count (CStr ''42 votes'' :: cell) = Inr (CInt 42)
   \<and> str_contains ''votes'' ''many votes'' \<and> str_split ''many votes'' = [''many'', ''votes'']
   \<and> py_int ''many'' = None
   \<and> convert_vote_count (CStr ''many votes'' :: cell) = Inl ValueError"
proof -
  have a: "\<not> str_contains ''votes'' ''seven''" by simp
  have b: "''42'' \<noteq> [] \<and> (\<forall>c \<in> set ''42''. is_digit c)" by (simp add: is_digit_def)
  have c: "str_contains ''votes'' ''many votes'' \<and> str_split ''many votes'' = [''many'', ''votes'']"
    by (simp add: str_split_def is_space_def)
  have d: "py_int ''many'' = None"
    by (simp add: py_int_def parse_unsigned_def is_digit_def)
  have e: "dec_value ''42'' = 42" by (simp add: dec_value_def digit_val_def)
  show ?thesis
    using convert_vote_count_cases
      [where n = 0 and t = 0 and s = "''seven''" and ds = "''42''" and s' = "''many votes''"
         and tok = "''many''" and toks = "[''votes'']"]
      a b c d e
    by simp
qed

text \<open>
  C7 as stated fails: the tally \<^verbatim>\<open>many votes\<close> contains \<^verbatim>\<open>votes\<close>, its leading token is not
  numeric, and \<^verbatim>\<open>int\<close> raises \<^verbatim>\<open>ValueError\<close> out of \<^verbatim>\<open>convert_vote_count\<close>.
\<close>

theorem convert_vote_count_raises:
  "convert_vote_count (CStr ''many votes'' :: cell) = Inl ValueError"
  by (simp add: convert_vote_count_def str_split_def is_space_def py_int_def
      parse_unsigned_def is_digit_def)

end
